theory Spec2Isabelle
  imports Complex_Main "HOL-Library.AList" "HOL-Library.Char_ord" "HOL-Library.List_Lexorder"
begin

section \<open>Decision accumulator (g0\_enter\_work.py, class Decision)\<close>

text \<open>
  The dataclass \<^verbatim>\<open>Decision\<close> has three fields, \<^verbatim>\<open>allow: bool = True\<close>,
  \<^verbatim>\<open>deny_code: Optional[str] = None\<close> and \<^verbatim>\<open>message: Optional[str] = None\<close>.
  Its method \<^verbatim>\<open>deny\<close> mutates the object; the model returns the new value.
\<close>

record Decision =
  allow :: bool
  deny_code :: "string option"
  message :: "string option"

definition Decision_init :: Decision where
  "Decision_init = \<lparr>allow = True, deny_code = None, message = None\<rparr>"

definition deny :: "Decision \<Rightarrow> string \<Rightarrow> string \<Rightarrow> Decision" where
  "deny d code msg =
     (if allow d then d\<lparr>allow := False, deny_code := Some code, message := Some msg\<rparr>
      else d)"

text \<open>A sequence of \<^verbatim>\<open>deny(code, message)\<close> calls on one object, in order.\<close>

fun deny_all :: "Decision \<Rightarrow> (string \<times> string) list \<Rightarrow> Decision" where
  "deny_all d [] = d"
| "deny_all d ((code, msg) # calls) = deny_all (deny d code msg) calls"

section \<open>Strings (Python \<^verbatim>\<open>str\<close> methods used by the tools)\<close>

text \<open>
  A Python string is modelled as a \<open>string\<close> whose characters are the code points
  below 256. The methods below follow CPython on that range: \<^verbatim>\<open>str.isspace\<close> holds
  for the code points 9 to 13, 28 to 32, 133 and 160; \<^verbatim>\<open>str.splitlines\<close> breaks
  at LF, CR, CR LF, VT, FF, FS, GS, RS and NEL.
\<close>

definition is_space :: "char \<Rightarrow> bool" where
  "is_space c =
     (let n = (of_char c :: nat)
      in (9 \<le> n \<and> n \<le> 13) \<or> (28 \<le> n \<and> n \<le> 32) \<or> n = 133 \<or> n = 160)"

definition is_linebreak :: "char \<Rightarrow> bool" where
  "is_linebreak c =
     (let n = (of_char c :: nat)
      in (10 \<le> n \<and> n \<le> 13) \<or> (28 \<le> n \<and> n \<le> 30) \<or> n = 133)"

definition lstrip_chars :: "string \<Rightarrow> string \<Rightarrow> string" where
  "lstrip_chars cs s = dropWhile (\<lambda>c. c \<in> set cs) s"

definition rstrip_chars :: "string \<Rightarrow> string \<Rightarrow> string" where
  "rstrip_chars cs s = rev (dropWhile (\<lambda>c. c \<in> set cs) (rev s))"

definition strip :: "string \<Rightarrow> string" where
  "strip s = rev (dropWhile is_space (rev (dropWhile is_space s)))"

definition startswith :: "string \<Rightarrow> string \<Rightarrow> bool" where
  "startswith s pre = (take (length pre) s = pre)"

text \<open>\<^verbatim>\<open>s.replace("\\", "/")\<close>: every backslash (code point 92) becomes a slash.\<close>

definition replace_backslash :: "string \<Rightarrow> string" where
  "replace_backslash s = map (\<lambda>c. if c = CHR 0x5C then CHR ''/'' else c) s"

text \<open>
  The first occurrence of a non-empty separator: \<open>Some (before, after)\<close>, or \<open>None\<close>
  when the separator does not occur (\<^verbatim>\<open>sep in s\<close>, \<^verbatim>\<open>s.partition(sep)\<close>,
  \<^verbatim>\<open>s.split(sep, 1)\<close>).
\<close>

fun find_sep :: "string \<Rightarrow> string \<Rightarrow> (string \<times> string) option" where
  "find_sep sep [] = None"
| "find_sep sep (c # s) =
     (if startswith (c # s) sep then Some ([], drop (length sep) (c # s))
      else (case find_sep sep s of
              None \<Rightarrow> None
            | Some (a, b) \<Rightarrow> Some (c # a, b)))"

text \<open>\<^verbatim>\<open>s.split(sep, maxsplit)\<close> for a non-empty separator.\<close>

fun split_max :: "string \<Rightarrow> nat \<Rightarrow> string \<Rightarrow> string list" where
  "split_max sep 0 s = [s]"
| "split_max sep (Suc n) s =
     (case find_sep sep s of
        None \<Rightarrow> [s]
      | Some (a, b) \<Rightarrow> a # split_max sep n b)"

fun splitlines_aux :: "string \<Rightarrow> string \<Rightarrow> string list" where
  "splitlines_aux cur [] = (if cur = [] then [] else [rev cur])"
| "splitlines_aux cur (c # s) =
     (if is_linebreak c then
        (case s of
           [] \<Rightarrow> [rev cur]
         | d # s' \<Rightarrow>
             if c = CHR 0x0D \<and> d = CHR 0x0A then rev cur # splitlines_aux [] s'
             else rev cur # splitlines_aux [] (d # s'))
      else splitlines_aux (c # cur) s)"

definition splitlines :: "string \<Rightarrow> string list" where
  "splitlines s = splitlines_aux [] s"

text \<open>\<^verbatim>\<open>"\n".join(xs)\<close>.\<close>

fun join_lines :: "string list \<Rightarrow> string" where
  "join_lines [] = []"
| "join_lines [x] = x"
| "join_lines (x # y # xs) = x @ [CHR 0x0A] @ join_lines (y # xs)"

section \<open>Path matcher (collect\_packet\_evidence.py)\<close>

text \<open>\<^verbatim>\<open>normalize_path(s) = s.replace("\\", "/").lstrip("./")\<close>.\<close>

definition normalize_path :: "string \<Rightarrow> string" where
  "normalize_path s = lstrip_chars ''./'' (replace_backslash s)"

text \<open>\<^verbatim>\<open>any(ch in a_norm for ch in ["*", "?", "["])\<close>.\<close>

definition has_wildcard :: "string \<Rightarrow> bool" where
  "has_wildcard a = list_ex (\<lambda>ch. ch \<in> set a) ''*?[''"

text \<open>
  \<^verbatim>\<open>fnmatch.fnmatch\<close> belongs to the Python standard library, not to this
  repository; the matchers take it as the parameter \<open>fnm\<close> (called as
  \<open>fnm path pattern\<close>). The loop over the patterns returns at the first match.
\<close>

fun matches_allowed_loop :: "(string \<Rightarrow> string \<Rightarrow> bool) \<Rightarrow> string \<Rightarrow> string list \<Rightarrow> bool" where
  "matches_allowed_loop fnm p [] = False"
| "matches_allowed_loop fnm p (a # allowed) =
     (let a_norm = normalize_path a in
      if has_wildcard a_norm then
        (if fnm p a_norm then True else matches_allowed_loop fnm p allowed)
      else
        (let a_dir = rstrip_chars ''/'' a_norm in
         if p = a_dir \<or> startswith p (a_dir @ ''/'') then True
         else matches_allowed_loop fnm p allowed))"

definition matches_allowed :: "(string \<Rightarrow> string \<Rightarrow> bool) \<Rightarrow> string \<Rightarrow> string list \<Rightarrow> bool" where
  "matches_allowed fnm path allowed = matches_allowed_loop fnm (normalize_path path) allowed"

fun matches_any_loop :: "(string \<Rightarrow> string \<Rightarrow> bool) \<Rightarrow> string \<Rightarrow> string list \<Rightarrow> bool" where
  "matches_any_loop fnm p [] = False"
| "matches_any_loop fnm p (pat # patterns) =
     (let pat_norm = normalize_path pat in
      if has_wildcard pat_norm then
        (if fnm p pat_norm then True else matches_any_loop fnm p patterns)
      else
        (let pat_dir = rstrip_chars ''/'' pat_norm in
         if p = pat_dir \<or> startswith p (pat_dir @ ''/'') then True
         else matches_any_loop fnm p patterns))"

definition matches_any :: "(string \<Rightarrow> string \<Rightarrow> bool) \<Rightarrow> string \<Rightarrow> string list \<Rightarrow> bool" where
  "matches_any fnm path patterns = matches_any_loop fnm (normalize_path path) patterns"

text \<open>
  \<^verbatim>\<open>paths_from_porcelain\<close>: one step of the loop over the lines of
  \<^verbatim>\<open>git status --porcelain\<close>, giving the path a line contributes, if any.
\<close>

definition porcelain_path :: "string \<Rightarrow> string option" where
  "porcelain_path ln0 =
     (let ln = rstrip_chars [CHR 0x0A] ln0 in
      if strip ln = [] then None
      else if length ln < 4 then None
      else
        (let path = strip (drop 3 ln);
             path' = (case find_sep '' -> '' path of
                        None \<Rightarrow> path
                      | Some (old, new) \<Rightarrow> strip new)
         in if path' = [] then None else Some path'))"

definition paths_from_porcelain :: "string list \<Rightarrow> string list" where
  "paths_from_porcelain lines = List.map_filter porcelain_path lines"

section \<open>Python values after JSON decoding\<close>

text \<open>
  \<^verbatim>\<open>json.loads\<close> gives \<^verbatim>\<open>None\<close>, a bool, an int, a float, a str, a list or a dict
  with string keys. A dict is an association list with distinct keys, in insertion
  order. A float is kept as the real number it denotes.
\<close>

datatype json =
    JNull
  | JBool bool
  | JInt int
  | JFloat real
  | JStr string
  | JList "json list"
  | JObj "(string \<times> json) list"

datatype py_error =
    AttributeError
  | TypeError
  | ValueError
  | RuntimeError string

text \<open>Sequencing of steps that may raise: the first exception ends the run.\<close>

definition bind :: "py_error + 'a \<Rightarrow> ('a \<Rightarrow> py_error + 'b) \<Rightarrow> py_error + 'b" where
  "bind m f = (case m of Inl e \<Rightarrow> Inl e | Inr x \<Rightarrow> f x)"

text \<open>Truth value of an object, as \<^verbatim>\<open>if x\<close>, \<^verbatim>\<open>x or y\<close> and \<^verbatim>\<open>bool(x)\<close> take it.\<close>

fun truthy :: "json \<Rightarrow> bool" where
  "truthy JNull = False"
| "truthy (JBool b) = b"
| "truthy (JInt i) = (i \<noteq> 0)"
| "truthy (JFloat r) = (r \<noteq> 0)"
| "truthy (JStr s) = (s \<noteq> [])"
| "truthy (JList xs) = (xs \<noteq> [])"
| "truthy (JObj kvs) = (kvs \<noteq> [])"

definition py_or :: "json \<Rightarrow> json \<Rightarrow> json" where
  "py_or x y = (if truthy x then x else y)"

text \<open>
  \<^verbatim>\<open>d.get(key, default)\<close> on a dict; \<^verbatim>\<open>x.get\<close> on any other decoded value raises
  AttributeError.
\<close>

definition dict_get :: "(string \<times> json) list \<Rightarrow> string \<Rightarrow> json \<Rightarrow> json" where
  "dict_get kvs key dflt = (case map_of kvs key of None \<Rightarrow> dflt | Some v \<Rightarrow> v)"

fun py_get :: "json \<Rightarrow> string \<Rightarrow> json \<Rightarrow> py_error + json" where
  "py_get (JObj kvs) key dflt = Inr (dict_get kvs key dflt)"
| "py_get _ key dflt = Inl AttributeError"

text \<open>
  \<^verbatim>\<open>str(x)\<close> is the string itself for a str. For the other values it is their
  \<^verbatim>\<open>repr\<close>, a function of the interpreter that the models take as the parameter
  \<open>repr\<close>.
\<close>

fun py_str :: "(json \<Rightarrow> string) \<Rightarrow> json \<Rightarrow> string" where
  "py_str repr (JStr s) = s"
| "py_str repr v = repr v"

text \<open>\<^verbatim>\<open>list(x)\<close>: the elements of a list, the characters of a str, the keys of a dict.\<close>

fun py_list :: "json \<Rightarrow> py_error + json list" where
  "py_list (JList xs) = Inr xs"
| "py_list (JStr s) = Inr (map (\<lambda>c. JStr [c]) s)"
| "py_list (JObj kvs) = Inr (map (\<lambda>kv. JStr (fst kv)) kvs)"
| "py_list _ = Inl TypeError"

text \<open>
  \<^verbatim>\<open>dict(x)\<close>: a copy of a dict; for another iterable, each element must itself
  iterate to exactly two items, key and value (ValueError otherwise), and the key must
  be hashable (TypeError for a list or a dict). Only string keys are ever looked up
  afterwards, so entries under other keys are dropped from the model's dict.
\<close>

fun dict_pair :: "json \<Rightarrow> py_error + (json \<times> json)" where
  "dict_pair x =
     (case py_list x of
        Inl e \<Rightarrow> Inl e
      | Inr [k, v] \<Rightarrow>
          (case k of
             JList _ \<Rightarrow> Inl TypeError
           | JObj _ \<Rightarrow> Inl TypeError
           | _ \<Rightarrow> Inr (k, v))
      | Inr _ \<Rightarrow> Inl ValueError)"

fun dict_of_pairs :: "(string \<times> json) list \<Rightarrow> json list \<Rightarrow> py_error + (string \<times> json) list" where
  "dict_of_pairs acc [] = Inr acc"
| "dict_of_pairs acc (x # xs) =
     (case dict_pair x of
        Inl e \<Rightarrow> Inl e
      | Inr (JStr k, v) \<Rightarrow> dict_of_pairs (AList.update k v acc) xs
      | Inr _ \<Rightarrow> dict_of_pairs acc xs)"

fun py_dict :: "json \<Rightarrow> py_error + (string \<times> json) list" where
  "py_dict (JObj kvs) = Inr kvs"
| "py_dict x = (case py_list x of Inl e \<Rightarrow> Inl e | Inr xs \<Rightarrow> dict_of_pairs [] xs)"

text \<open>
  \<^verbatim>\<open>isinstance(x, int)\<close> holds for an int and for a bool (a subclass of int, with
  \<^verbatim>\<open>True == 1\<close> and \<^verbatim>\<open>False == 0\<close>); \<open>int_value\<close> is the integer compared.
\<close>

fun int_value :: "json \<Rightarrow> int option" where
  "int_value (JInt i) = Some i"
| "int_value (JBool b) = Some (if b then 1 else 0)"
| "int_value _ = None"

text \<open>
  \<^verbatim>\<open>str.isdigit\<close> holds for a non-empty string of digits; below 256 the digits are
  0 to 9 and the superscripts two, three and one (178, 179, 185). \<^verbatim>\<open>int(s)\<close> reads
  the decimal digits 0 to 9 and raises ValueError on a superscript digit.
\<close>

definition is_ascii_digit :: "char \<Rightarrow> bool" where
  "is_ascii_digit c = (let n = (of_char c :: nat) in 48 \<le> n \<and> n \<le> 57)"

definition is_digit_char :: "char \<Rightarrow> bool" where
  "is_digit_char c = (is_ascii_digit c \<or> (of_char c :: nat) \<in> {178, 179, 185})"

definition isdigit :: "string \<Rightarrow> bool" where
  "isdigit s = (s \<noteq> [] \<and> list_all is_digit_char s)"

definition int_of_digits :: "string \<Rightarrow> py_error + int" where
  "int_of_digits s =
     (if list_all is_ascii_digit s
      then Inr (foldl (\<lambda>acc c. 10 * acc + (int (of_char c) - 48)) 0 s)
      else Inl ValueError)"

text \<open>Decimal text of an integer, as an f-string prints it.\<close>

fun digits_of :: "nat \<Rightarrow> nat \<Rightarrow> string" where
  "digits_of 0 n = []"
| "digits_of (Suc fuel) n =
     (if n < 10 then [char_of (48 + n)]
      else digits_of fuel (n div 10) @ [char_of (48 + n mod 10)])"

definition show_int :: "int \<Rightarrow> string" where
  "show_int i =
     (if i < 0 then CHR ''-'' # digits_of (Suc (nat (- i))) (nat (- i))
      else digits_of (Suc (nat i)) (nat i))"

text \<open>
  UTF-8 encoding of a string of code points below 256, as \<^verbatim>\<open>write_text\<close> stores it:
  one byte below 128, two bytes from 128 on.
\<close>

definition utf8 :: "string \<Rightarrow> string" where
  "utf8 s =
     concat (map (\<lambda>c. let n = (of_char c :: nat)
                       in if n < 128 then [c]
                          else [char_of (192 + n div 64), char_of (128 + n mod 64)]) s)"

section \<open>The world around the evidence harness\<close>

text \<open>
  Files hold bytes. \<^verbatim>\<open>write_text\<close> stores the UTF-8 encoding of a string and
  \<^verbatim>\<open>read_text\<close> decodes it; a byte sequence that is not the encoding of a code point
  below 256 lies outside the model and is passed through undecoded.
\<close>

fun decode_utf8 :: "string \<Rightarrow> string" where
  "decode_utf8 [] = []"
| "decode_utf8 [c] = [c]"
| "decode_utf8 (c # d # s) =
     (let n = (of_char c :: nat); m = (of_char d :: nat)
      in if (n = 194 \<or> n = 195) \<and> 128 \<le> m \<and> m < 192
         then char_of ((n - 192) * 64 + (m - 128)) # decode_utf8 s
         else c # decode_utf8 (d # s))"

text \<open>
  The regular files below the output directory, each under its path relative to that
  directory (a list of components), together with the log of the writes of this run in
  the order they happen. Creating the parent directories never changes a regular file
  and is not recorded.
\<close>

type_synonym rel_path = "string list"

record fs_state =
  store :: "(rel_path \<times> string) list"
  writes :: "(rel_path \<times> string) list"

definition exists_file :: "fs_state \<Rightarrow> rel_path \<Rightarrow> bool" where
  "exists_file st p = (map_of (store st) p \<noteq> None)"

definition read_bytes :: "fs_state \<Rightarrow> rel_path \<Rightarrow> string" where
  "read_bytes st p = (case map_of (store st) p of None \<Rightarrow> [] | Some b \<Rightarrow> b)"

definition read_text :: "fs_state \<Rightarrow> rel_path \<Rightarrow> string" where
  "read_text st p = decode_utf8 (read_bytes st p)"

definition write_bytes :: "rel_path \<Rightarrow> string \<Rightarrow> fs_state \<Rightarrow> fs_state" where
  "write_bytes p b st =
     st\<lparr>store := AList.update p b (store st), writes := writes st @ [(p, b)]\<rparr>"

definition write_text :: "rel_path \<Rightarrow> string \<Rightarrow> fs_state \<Rightarrow> fs_state" where
  "write_text p text st = write_bytes p (utf8 text) st"

text \<open>
  What the run reads from outside the output directory, and the library functions it
  calls, are the fields of the environment:
  \<^item> \<open>fnmatch\<close>, \<open>repr\<close>, \<open>dumps\<close> (\<^verbatim>\<open>json.dumps(obj, indent=2, sort_keys=True)\<close>) and
    \<open>sha256_hex\<close> (hex digest of a byte string) from the standard library;
  \<^item> \<open>now k\<close>, the value of the \<open>k\<close>-th call of \<^verbatim>\<open>utc_now\<close>;
  \<^item> \<open>git_toplevel\<close>, the result of \<^verbatim>\<open>run(["git", "rev-parse", "--show-toplevel"])\<close>, and
    \<open>git wt args\<close>, the result of \<^verbatim>\<open>run(["git"] + args, cwd=wt)\<close>, each a triple of return
    code, standard output and standard error;
  \<^item> \<open>contract_doc\<close>, the outcome of reading and decoding the contract file: the decoded
    value, or the text of the exception;
  \<^item> \<open>meta_arg\<close>, the value of \<^verbatim>\<open>--meta\<close>; \<open>meta_exists\<close> and \<open>meta_doc\<close> for that file;
  \<^item> \<open>wt_candidate\<close>, the string of \<^verbatim>\<open>root / ".codex/.worktrees" / packet_id\<close>, and
    \<open>wt_candidate_exists\<close>;
  \<^item> \<open>out_dir_parts\<close>, the components of the resolved output directory
    \<^verbatim>\<open>(root / out_root / packet_id).resolve()\<close>, and \<open>out_files\<close>, the regular files below it
    when the run starts.
\<close>

record harness_env =
  fnmatch :: "string \<Rightarrow> string \<Rightarrow> bool"
  repr :: "json \<Rightarrow> string"
  dumps :: "json \<Rightarrow> string"
  sha256_hex :: "string \<Rightarrow> string"
  now :: "nat \<Rightarrow> string"
  git_toplevel :: "int \<times> string \<times> string"
  git :: "string \<Rightarrow> string list \<Rightarrow> int \<times> string \<times> string"
  contract_doc :: "string + json"
  meta_arg :: "string option"
  meta_exists :: bool
  meta_doc :: "string + json"
  wt_candidate :: "string \<Rightarrow> string \<Rightarrow> string"
  wt_candidate_exists :: bool
  out_dir_parts :: "string \<Rightarrow> string \<Rightarrow> string \<Rightarrow> string list"
  out_files :: "(rel_path \<times> string) list"

definition write_json :: "(json \<Rightarrow> string) \<Rightarrow> rel_path \<Rightarrow> json \<Rightarrow> fs_state \<Rightarrow> fs_state" where
  "write_json dmp p obj st = write_text p (dmp obj @ [CHR 0x0A]) st"

text \<open>\<^verbatim>\<open>git_root\<close> of the harness raises RuntimeError when git fails.\<close>

definition git_root :: "int \<times> string \<times> string \<Rightarrow> py_error + string" where
  "git_root r =
     (case r of (rc, out, err) \<Rightarrow>
        if rc \<noteq> 0
        then Inl (RuntimeError (if strip err \<noteq> [] then strip err else ''not a git repo''))
        else Inr (strip out))"

definition git_capture :: "harness_env \<Rightarrow> string \<Rightarrow> string list \<Rightarrow> string" where
  "git_capture env wt args =
     (case git env wt args of (rc, out, err) \<Rightarrow>
        if rc \<noteq> 0 then (if err = [] then [] else ''!! '' @ strip err)
        else out)"

text \<open>\<^verbatim>\<open>list_files(root)\<close>, with the paths made relative to the output directory.\<close>

definition list_files :: "string list \<Rightarrow> rel_path \<Rightarrow> fs_state \<Rightarrow> rel_path list" where
  "list_files dir_parts sub st =
     filter (\<lambda>p. take (length sub) p = sub \<and> length sub < length p
                 \<and> ''.git'' \<notin> set (dir_parts @ p))
            (map fst (store st))"

text \<open>\<^verbatim>\<open>PurePath.as_posix\<close> of a relative path.\<close>

fun as_posix :: "rel_path \<Rightarrow> string" where
  "as_posix [] = ''.''"
| "as_posix [x] = x"
| "as_posix (x # y # xs) = x @ ''/'' @ as_posix (y # xs)"

section \<open>Evidence harness (collect\_packet\_evidence.py, main)\<close>

subsection \<open>Contract fields (lines 178 to 188)\<close>

record contract_cfg =
  packet_id :: string
  base_ref :: string
  branch :: string
  allowed_paths :: "json list"
  forbidden_outputs :: "json list"
  budgets :: "(string \<times> json) list"
  run_cfg :: "(string \<times> json) list"
  evidence_cfg :: "(string \<times> json) list"
  out_root :: string
  include_patch :: bool

definition contract_fields :: "(json \<Rightarrow> string) \<Rightarrow> json \<Rightarrow> py_error + contract_cfg" where
  "contract_fields rp contract =
     bind (py_get contract ''packet_id'' JNull) (\<lambda>pid.
     bind (py_get contract ''base_ref'' JNull) (\<lambda>bref.
     bind (py_get contract ''branch'' JNull) (\<lambda>br.
     bind (py_get contract ''allowed_paths'' JNull) (\<lambda>ap.
     bind (py_list (py_or ap (JList []))) (\<lambda>allowed.
     bind (py_get contract ''forbidden_outputs'' JNull) (\<lambda>fo.
     bind (py_list (py_or fo (JList []))) (\<lambda>forbidden.
     bind (py_get contract ''budgets'' JNull) (\<lambda>bu.
     bind (py_dict (py_or bu (JObj []))) (\<lambda>budgets_d.
     bind (py_get contract ''run'' JNull) (\<lambda>ru.
     bind (py_dict (py_or ru (JObj []))) (\<lambda>run_d.
     bind (py_get contract ''evidence'' JNull) (\<lambda>ev.
     bind (py_dict (py_or ev (JObj []))) (\<lambda>evidence_d.
       Inr \<lparr>packet_id = py_str rp (py_or pid (JStr ''unknown'')),
            base_ref = py_str rp (py_or bref (JStr [])),
            branch = py_str rp (py_or br (JStr [])),
            allowed_paths = allowed,
            forbidden_outputs = forbidden,
            budgets = budgets_d,
            run_cfg = run_d,
            evidence_cfg = evidence_d,
            out_root = py_str rp (py_or (dict_get evidence_d ''out_dir'' JNull) (JStr ''.codex/out'')),
            include_patch = truthy (dict_get evidence_d ''include_git_diff_patch'' (JBool False))\<rparr>
     )))))))))))))"

subsection \<open>Run-metadata record and worktree (lines 194 to 210)\<close>

definition load_meta :: "harness_env \<Rightarrow> json" where
  "load_meta env =
     (case meta_arg env of
        None \<Rightarrow> JObj []
      | Some a \<Rightarrow>
          if a = [] then JObj []
          else if meta_exists env then
            (case meta_doc env of Inl e \<Rightarrow> JObj [] | Inr m \<Rightarrow> m)
          else JObj [])"

text \<open>
  \<^verbatim>\<open>Path(wt_path)\<close> raises TypeError when the value is not a string; the worktree is
  kept as the string given.
\<close>

definition worktree_of :: "harness_env \<Rightarrow> string \<Rightarrow> string \<Rightarrow> json \<Rightarrow> py_error + string" where
  "worktree_of env repo_root pid wt_path =
     (if \<not> truthy wt_path then
        Inr (if wt_candidate_exists env then wt_candidate env repo_root pid else repo_root)
      else (case wt_path of JStr s \<Rightarrow> Inr s | _ \<Rightarrow> Inl TypeError))"

subsection \<open>Raw snapshots (lines 212 to 241)\<close>

definition nonblank_lines :: "string \<Rightarrow> string list" where
  "nonblank_lines s = filter (\<lambda>ln. strip ln \<noteq> []) (splitlines s)"

definition lines_text :: "string list \<Rightarrow> string" where
  "lines_text xs = join_lines xs @ (if xs \<noteq> [] then [CHR 0x0A] else [])"

definition snapshot_head :: "harness_env \<Rightarrow> string \<Rightarrow> rel_path \<Rightarrow> fs_state \<Rightarrow> string \<times> fs_state" where
  "snapshot_head env wt p st =
     (if exists_file st p then (strip (read_text st p), st)
      else (let h = strip (git_capture env wt [''rev-parse'', ''HEAD''])
            in (h, write_text p (h @ (if h \<noteq> [] then [CHR 0x0A] else [])) st)))"

definition snapshot_status :: "harness_env \<Rightarrow> string \<Rightarrow> rel_path \<Rightarrow> fs_state \<Rightarrow> string list \<times> fs_state" where
  "snapshot_status env wt p st =
     (if exists_file st p then (nonblank_lines (read_text st p), st)
      else (let s = nonblank_lines (git_capture env wt [''status'', ''--porcelain''])
            in (s, write_text p (lines_text s) st)))"

record snapshots =
  head_before :: string
  status_before :: "string list"
  head_after :: string
  status_after :: "string list"

definition take_snapshots :: "harness_env \<Rightarrow> string \<Rightarrow> fs_state \<Rightarrow> snapshots \<times> fs_state" where
  "take_snapshots env wt st0 =
     (let (hb, st1) = snapshot_head env wt [''raw'', ''head_before.txt''] st0;
          (sb, st2) = snapshot_status env wt [''raw'', ''status_before.txt''] st1;
          (ha, st3) = snapshot_head env wt [''raw'', ''head_after.txt''] st2;
          (sa, st4) = snapshot_status env wt [''raw'', ''status_after.txt''] st3
      in (\<lparr>head_before = hb, status_before = sb, head_after = ha, status_after = sa\<rparr>, st4))"

subsection \<open>Diffs and changed paths (lines 243 to 271)\<close>

definition stripped_lines :: "string \<Rightarrow> string list" where
  "stripped_lines s = map strip (nonblank_lines s)"

record diffs =
  diff_name_only :: "string list"
  diff_stat :: string
  show_name_only_after :: "string list"
  status_paths_after :: "string list"
  changed_paths :: "string list"

definition take_diffs :: "harness_env \<Rightarrow> string \<Rightarrow> bool \<Rightarrow> snapshots \<Rightarrow> fs_state \<Rightarrow> diffs \<times> fs_state" where
  "take_diffs env wt patch sn st0 =
     (let dno = stripped_lines (git_capture env wt [''diff'', ''--name-only'', head_before sn]);
          st1 = write_text [''raw'', ''diff_name_only.txt''] (lines_text dno) st0;
          dst = rstrip_chars [CHR 0x0A] (git_capture env wt [''diff'', ''--stat'', head_before sn]);
          st2 = write_text [''raw'', ''diffstat.txt''] (dst @ (if dst \<noteq> [] then [CHR 0x0A] else [])) st1;
          sno = stripped_lines
                  (git_capture env wt
                     [''show'', ''--name-only'', ''--pretty=format:'',
                      (if head_after sn \<noteq> [] then head_after sn else ''HEAD'')]);
          st3 = write_text [''raw'', ''show_name_only_after.txt''] (lines_text sno) st2;
          st4 = (if patch
                 then write_text [''raw'', ''diff_patch.txt'']
                        (git_capture env wt [''diff'', head_before sn]) st3
                 else st3);
          spa = paths_from_porcelain (status_after sn);
          cps = sort (remdups (dno @ spa));
          st5 = write_text [''raw'', ''changed_paths.txt''] (lines_text cps) st4
      in (\<lparr>diff_name_only = dno, diff_stat = dst, show_name_only_after = sno,
            status_paths_after = spa, changed_paths = cps\<rparr>, st5))"

subsection \<open>Budgets via numstat (lines 273 to 290)\<close>

definition numstat_line :: "string \<Rightarrow> nat \<times> int \<times> int \<Rightarrow> py_error + (nat \<times> int \<times> int)" where
  "numstat_line ln0 acc =
     (case acc of (tracked, added, deleted) \<Rightarrow>
        (let ln = strip ln0 in
         if ln = [] then Inr acc
         else (let parts = split_max [CHR 0x09] 2 ln in
               if length parts < 2 then Inr acc
               else (let a = parts ! 0; d = parts ! 1 in
                     bind (if isdigit a then bind (int_of_digits a) (\<lambda>n. Inr (added + n))
                           else Inr added) (\<lambda>added'.
                     bind (if isdigit d then bind (int_of_digits d) (\<lambda>n. Inr (deleted + n))
                           else Inr deleted) (\<lambda>deleted'.
                     Inr (tracked + 1, added', deleted')))))))"

fun numstat_loop :: "string list \<Rightarrow> nat \<times> int \<times> int \<Rightarrow> py_error + (nat \<times> int \<times> int)" where
  "numstat_loop [] acc = Inr acc"
| "numstat_loop (line # lines) acc =
     (case numstat_line line acc of
        Inl e \<Rightarrow> Inl e
      | Inr acc' \<Rightarrow> numstat_loop lines acc')"

definition numstat_totals :: "string \<Rightarrow> py_error + (nat \<times> int \<times> int)" where
  "numstat_totals out = numstat_loop (splitlines out) (0, 0, 0)"

subsection \<open>Constraint violations (lines 294 to 320)\<close>

text \<open>
  The contract's pattern lists hold decoded values. \<^verbatim>\<open>normalize_path\<close> calls
  \<^verbatim>\<open>.replace\<close> on the pattern, so a pattern that is not a string raises
  AttributeError when the loop reaches it. The first argument is the path already
  normalised, as in \<open>matches_allowed_loop\<close>.
\<close>

fun matches_allowed_dyn :: "(string \<Rightarrow> string \<Rightarrow> bool) \<Rightarrow> string \<Rightarrow> json list \<Rightarrow> py_error + bool" where
  "matches_allowed_dyn fnm p [] = Inr False"
| "matches_allowed_dyn fnm p (a # allowed) =
     (case a of
        JStr s \<Rightarrow>
          if matches_allowed_loop fnm p [s] then Inr True
          else matches_allowed_dyn fnm p allowed
      | _ \<Rightarrow> Inl AttributeError)"

fun matches_any_dyn :: "(string \<Rightarrow> string \<Rightarrow> bool) \<Rightarrow> string \<Rightarrow> json list \<Rightarrow> py_error + bool" where
  "matches_any_dyn fnm p [] = Inr False"
| "matches_any_dyn fnm p (pat # patterns) =
     (case pat of
        JStr s \<Rightarrow>
          if matches_any_loop fnm p [s] then Inr True
          else matches_any_dyn fnm p patterns
      | _ \<Rightarrow> Inl AttributeError)"

text \<open>\<^verbatim>\<open>bad = [p for p in changed_paths if not matches_allowed(p, allowed_paths)]\<close>.\<close>

fun bad_paths :: "(string \<Rightarrow> string \<Rightarrow> bool) \<Rightarrow> json list \<Rightarrow> string list \<Rightarrow> py_error + string list" where
  "bad_paths fnm allowed [] = Inr []"
| "bad_paths fnm allowed (p # ps) =
     (case matches_allowed_dyn fnm (normalize_path p) allowed of
        Inl e \<Rightarrow> Inl e
      | Inr m \<Rightarrow>
          (case bad_paths fnm allowed ps of
             Inl e \<Rightarrow> Inl e
           | Inr rest \<Rightarrow> Inr (if m then rest else p # rest)))"

text \<open>The loop over \<^verbatim>\<open>status_paths_after\<close> that collects the forbidden outputs.\<close>

fun forbidden_hits :: "(string \<Rightarrow> string \<Rightarrow> bool) \<Rightarrow> json list \<Rightarrow> string list \<Rightarrow> py_error + string list" where
  "forbidden_hits fnm forbidden [] = Inr []"
| "forbidden_hits fnm forbidden (p # ps) =
     (let pn = normalize_path p in
      case matches_any_dyn fnm (normalize_path pn) forbidden of
        Inl e \<Rightarrow> Inl e
      | Inr m \<Rightarrow>
          (case forbidden_hits fnm forbidden ps of
             Inl e \<Rightarrow> Inl e
           | Inr rest \<Rightarrow> Inr (if m then pn # rest else rest)))"

definition budget_entry :: "string \<Rightarrow> int \<Rightarrow> json \<Rightarrow> json list" where
  "budget_entry name observed limit =
     (case int_value limit of
        None \<Rightarrow> []
      | Some m \<Rightarrow> if observed > m then [JList [JStr name, JInt observed, limit]] else [])"

definition budget_violations :: "(string \<times> json) list \<Rightarrow> int \<Rightarrow> int \<Rightarrow> json list" where
  "budget_violations bud changed_files total_lines =
     budget_entry ''max_changed_files'' changed_files (dict_get bud ''max_changed_files'' JNull)
     @ budget_entry ''max_changed_lines'' total_lines (dict_get bud ''max_changed_lines'' JNull)"

definition violation :: "string \<Rightarrow> string \<Rightarrow> json \<Rightarrow> json" where
  "violation code key details = JObj [(''code'', JStr code), (''details'', JObj [(key, details)])]"

definition constraint_violations ::
  "(string \<Rightarrow> string \<Rightarrow> bool) \<Rightarrow> contract_cfg \<Rightarrow> string list \<Rightarrow> string list \<Rightarrow> int
     \<Rightarrow> py_error + json list" where
  "constraint_violations fnm cfg cps spa total_lines =
     bind (if allowed_paths cfg \<noteq> [] then bad_paths fnm (allowed_paths cfg) cps else Inr []) (\<lambda>bad.
     bind (if forbidden_outputs cfg \<noteq> []
           then bind (forbidden_hits fnm (forbidden_outputs cfg) spa) (\<lambda>h. Inr (sort (remdups h)))
           else Inr []) (\<lambda>forbidden_hit.
       Inr ((if bad \<noteq> []
             then [violation ''DIFF_OUTSIDE_ALLOWED_PATHS'' ''bad_paths'' (JList (map JStr bad))]
             else [])
            @ (if forbidden_hit \<noteq> []
               then [violation ''FORBIDDEN_OUTPUT_PRESENT'' ''paths'' (JList (map JStr forbidden_hit))]
               else [])
            @ (let bv = budget_violations (budgets cfg) (int (length cps)) total_lines
               in if bv \<noteq> []
                  then [violation ''DIFF_BUDGET_EXCEEDED'' ''violations'' (JList bv)]
                  else []))))"

subsection \<open>Tests and decision (lines 322 to 340)\<close>

definition test_result_of :: "string \<Rightarrow> json \<Rightarrow> string" where
  "test_result_of test_cmd test_rc =
     (if test_cmd = [] then ''SKIP''
      else (case int_value test_rc of
              None \<Rightarrow> ''UNKNOWN''
            | Some n \<Rightarrow> if n = 0 then ''PASS'' else ''FAIL''))"

definition final_decision :: "(string \<times> json) list \<Rightarrow> json list \<Rightarrow> json" where
  "final_decision meta viols =
     (let decision_from_meta = dict_get meta ''decision'' JNull;
          decision = (if decision_from_meta = JStr ''ALLOW'' \<or> decision_from_meta = JStr ''DENY''
                      then decision_from_meta
                      else if viols \<noteq> [] then JStr ''DENY'' else JStr ''ALLOW'')
      in if viols \<noteq> [] then JStr ''DENY'' else decision)"

definition final_reasons :: "(json \<Rightarrow> string) \<Rightarrow> (string \<times> json) list \<Rightarrow> json list \<Rightarrow> json list" where
  "final_reasons rp meta viols =
     (let r0 = py_or (dict_get meta ''reasons'' JNull) (JList []);
          r1 = (case r0 of JList xs \<Rightarrow> xs | _ \<Rightarrow> [JStr (py_str rp r0)])
      in if viols \<noteq> [] \<and> dict_get meta ''decision'' JNull = JStr ''ALLOW''
         then r1 @ [JStr ''constraint_violations'']
         else r1)"

subsection \<open>Evidence record and summary (lines 342 to 403)\<close>

definition build_evidence ::
  "harness_env \<Rightarrow> string \<Rightarrow> contract_cfg \<Rightarrow> (string \<times> json) list \<Rightarrow> string \<Rightarrow> snapshots
     \<Rightarrow> diffs \<Rightarrow> nat \<times> int \<times> int \<Rightarrow> json list \<Rightarrow> bool \<Rightarrow> json \<Rightarrow> json" where
  "build_evidence env repo_root cfg meta wt sn df stats viols tests_exist artifacts =
     (case stats of (tracked, added, deleted) \<Rightarrow>
      (let test_cmd = py_str (repr env) (py_or (dict_get (run_cfg cfg) ''test_cmd'' JNull) (JStr []));
           test_rc = dict_get meta ''test_rc'' JNull
       in JObj
        [(''packet_id'', JStr (packet_id cfg)),
         (''generated_at_utc'', JStr (now env 1)),
         (''repo'', JObj [(''root'', JStr repo_root), (''base_ref'', JStr (base_ref cfg)),
                          (''heads'', JObj [(''before'', JStr (head_before sn)),
                                            (''after'', JStr (head_after sn))])]),
         (''worktree'', JObj [(''path'', JStr wt), (''branch'', JStr (branch cfg))]),
         (''status'', JObj [(''before'', JObj [(''porcelain'', JList (map JStr (status_before sn)))]),
                            (''after'', JObj [(''porcelain'', JList (map JStr (status_after sn)))])]),
         (''diff'', JObj [(''name_only'', JList (map JStr (diff_name_only df))),
                          (''stat'', JStr (diff_stat df)),
                          (''changed_files'', JInt (int (length (changed_paths df)))),
                          (''tracked_files_changed'', JInt (int tracked)),
                          (''lines_added'', JInt added),
                          (''lines_deleted'', JInt deleted)]),
         (''constraints'', JObj [(''allowed_paths'', JList (allowed_paths cfg)),
                                 (''forbidden_outputs'', JList (forbidden_outputs cfg)),
                                 (''violations'', JList viols)]),
         (''tests'', JObj [(''command'', JStr test_cmd),
                           (''exit_code'', test_rc),
                           (''result'', JStr (test_result_of test_cmd test_rc)),
                           (''raw_path'', if tests_exist then JStr ''raw/tests.txt'' else JNull)]),
         (''runner'', JObj [(''version'', dict_get meta ''runner_version'' JNull),
                            (''python'', dict_get meta ''python'' JNull),
                            (''meta'', JObj meta)]),
         (''decision'', final_decision meta viols),
         (''reasons'', JList (final_reasons (repr env) meta viols)),
         (''artifacts'', artifacts)]))"

text \<open>
  The bytes of \<^verbatim>\<open>evidence.md\<close>. The title holds an em dash (U+2014), which is beyond
  the code points of the string model; it stands as its three UTF-8 bytes.
\<close>

definition render_md ::
  "harness_env \<Rightarrow> contract_cfg \<Rightarrow> (string \<times> json) list \<Rightarrow> string \<Rightarrow> snapshots \<Rightarrow> diffs
     \<Rightarrow> nat \<times> int \<times> int \<Rightarrow> json list \<Rightarrow> string" where
  "render_md env cfg meta wt sn df stats viols =
     (case stats of (tracked, added, deleted) \<Rightarrow>
      (let test_cmd = py_str (repr env) (py_or (dict_get (run_cfg cfg) ''test_cmd'' JNull) (JStr []));
           test_rc = dict_get meta ''test_rc'' JNull;
           bt = [CHR 0x60];
           rest =
             [[],
              ''- Generated (UTC): '' @ bt @ now env 1 @ bt,
              ''- Decision: **'' @ py_str (repr env) (final_decision meta viols) @ ''**'',
              ''- Base ref: '' @ bt @ base_ref cfg @ bt,
              ''- Worktree: '' @ bt @ wt @ bt,
              [],
              ''## Heads'',
              ''- Before: '' @ bt @ head_before sn @ bt,
              ''- After: '' @ bt @ head_after sn @ bt,
              [],
              ''## Diff'',
              ''- Changed files: '' @ show_int (int (length (changed_paths df))),
              ''- Lines added/deleted: '' @ show_int added @ ''/'' @ show_int deleted,
              [],
              ''## Tests'',
              (if test_cmd \<noteq> [] then ''- Command: '' @ bt @ test_cmd @ bt
               else ''- Command: *(none)*''),
              ''- Result: **'' @ test_result_of test_cmd test_rc @ ''**'']
             @ (case test_rc of
                  JInt i \<Rightarrow> [''- Exit code: '' @ bt @ show_int i @ bt]
                | JBool b \<Rightarrow> [''- Exit code: '' @ bt @ (if b then ''True'' else ''False'') @ bt]
                | _ \<Rightarrow> [])
             @ [[], ''## Constraint violations'']
             @ (if viols \<noteq> []
                then [bt @ bt @ bt @ ''json'', dumps env (JList viols), bt @ bt @ bt]
                else [''- None''])
             @ [[]]
       in utf8 ''# Evidence '' @ [CHR 0xE2, CHR 0x80, CHR 0x94]
          @ utf8 ('' '' @ packet_id cfg @ [CHR 0x0A] @ join_lines rest @ [CHR 0x0A])))"

subsection \<open>Bundle, manifest and artifacts (lines 405 to 430)\<close>

definition manifest_entry :: "harness_env \<Rightarrow> fs_state \<Rightarrow> rel_path \<Rightarrow> json" where
  "manifest_entry env st p =
     JObj [(''path'', JStr (as_posix p)),
           (''sha256'', JStr (sha256_hex env (read_bytes st p))),
           (''size'', JInt (int (length (read_bytes st p))))]"

text \<open>
  The entries are sorted by their path string. The source sorts the entries; the model
  sorts the paths by the same key and then builds the entries.
\<close>

definition manifest_paths :: "string list \<Rightarrow> fs_state \<Rightarrow> rel_path list" where
  "manifest_paths dir_parts st =
     sort_key as_posix
       (filter (\<lambda>p. as_posix p \<noteq> ''manifest.json'' \<and> as_posix p \<noteq> ''manifest.sha256'')
               (list_files dir_parts [] st))"

definition build_manifest :: "harness_env \<Rightarrow> string list \<Rightarrow> fs_state \<Rightarrow> json" where
  "build_manifest env dir_parts st =
     JObj [(''generated_at_utc'', JStr (now env 0)),
           (''files'', JList (map (manifest_entry env st) (manifest_paths dir_parts st)))]"

definition artifacts_of :: "string list \<Rightarrow> fs_state \<Rightarrow> json" where
  "artifacts_of dir_parts st =
     JObj [(''raw'', JList (map JStr (sort (map as_posix (list_files dir_parts [''raw''] st))))),
           (''manifest'', JStr ''manifest.json''),
           (''manifest_sha256'', JStr ''manifest.sha256'')]"

text \<open>
  The outcome of a run: the exit code, the directory written to, the files there and
  the writes made, and the values of the locals the evidence is built from.
  \<open>first_evidence\<close> is the record as first written, \<open>evidence\<close> the one written last.
\<close>

record harness_run =
  exit_code :: int
  out_dir :: "string list"
  final :: fs_state
  first_evidence :: json
  evidence :: json
  manifest :: json
  snaps :: "snapshots option"
  observed :: "diffs option"
  violations :: "json list"
  decision :: json
  reasons :: "json list"
  total_lines :: int

definition finish_bundle ::
  "harness_env \<Rightarrow> string \<Rightarrow> contract_cfg \<Rightarrow> (string \<times> json) list \<Rightarrow> string \<Rightarrow> snapshots
     \<Rightarrow> diffs \<Rightarrow> nat \<times> int \<times> int \<Rightarrow> json list \<Rightarrow> string list \<Rightarrow> fs_state \<Rightarrow> harness_run" where
  "finish_bundle env repo_root cfg meta wt sn df stats viols dir_parts st0 =
     (let tests_exist = exists_file st0 [''raw'', ''tests.txt''];
          ev0 = build_evidence env repo_root cfg meta wt sn df stats viols tests_exist (JObj []);
          md = render_md env cfg meta wt sn df stats viols;
          st1 = write_json (dumps env) [''evidence.json''] ev0 st0;
          st2 = write_bytes [''evidence.md''] md st1;
          man = build_manifest env dir_parts st2;
          st3 = write_json (dumps env) [''manifest.json''] man st2;
          m_hash = sha256_hex env (read_bytes st3 [''manifest.json'']);
          st4 = write_text [''manifest.sha256''] (m_hash @ ''  manifest.json'' @ [CHR 0x0A]) st3;
          ev1 = build_evidence env repo_root cfg meta wt sn df stats viols tests_exist
                  (artifacts_of dir_parts st4);
          st5 = write_json (dumps env) [''evidence.json''] ev1 st4
      in \<lparr>exit_code = 0, out_dir = dir_parts, final = st5, first_evidence = ev0,
           evidence = ev1, manifest = man, snaps = Some sn, observed = Some df,
           violations = viols,
           decision = final_decision meta viols,
           reasons = final_reasons (repr env) meta viols,
           total_lines = (case stats of (tracked, added, deleted) \<Rightarrow> added + deleted)\<rparr>)"

text \<open>
  The minimal record written when the repository is not found or the contract cannot
  be read (lines 158 to 176). Files already in that directory are not part of the model.
\<close>

definition fallback :: "harness_env \<Rightarrow> string list \<Rightarrow> string \<Rightarrow> harness_run" where
  "fallback env dir_parts msg =
     (let ev = JObj [(''generated_at_utc'', JStr (now env 1)), (''error'', JStr msg)]
      in \<lparr>exit_code = 2, out_dir = dir_parts,
           final = write_json (dumps env) [''evidence.json''] ev \<lparr>store = [], writes = []\<rparr>,
           first_evidence = ev, evidence = ev, manifest = JNull, snaps = None,
           observed = None, violations = [],
           decision = JNull, reasons = [], total_lines = 0\<rparr>)"

text \<open>
  The run after the contract has been decoded. An exception leaves the run with the
  files as they are at that point.
\<close>

definition main_body :: "harness_env \<Rightarrow> string \<Rightarrow> json \<Rightarrow> (py_error \<times> fs_state) + harness_run" where
  "main_body env repo_root contract =
     (let st0 = \<lparr>store = out_files env, writes = []\<rparr> in
      case contract_fields (repr env) contract of
        Inl e \<Rightarrow> Inl (e, st0)
      | Inr cfg \<Rightarrow>
      (case load_meta env of
         JObj meta \<Rightarrow>
           (case worktree_of env repo_root (packet_id cfg) (dict_get meta ''worktree_path'' JNull) of
              Inl e \<Rightarrow> Inl (e, st0)
            | Inr wt \<Rightarrow>
              (let (sn, st1) = take_snapshots env wt st0;
                   (df, st2) = take_diffs env wt (include_patch cfg) sn st1
               in case numstat_totals (git_capture env wt [''diff'', ''--numstat'', head_before sn]) of
                    Inl e \<Rightarrow> Inl (e, st2)
                  | Inr stats \<Rightarrow>
                    (case constraint_violations (fnmatch env) cfg (changed_paths df)
                            (status_paths_after df) (fst (snd stats) + snd (snd stats)) of
                       Inl e \<Rightarrow> Inl (e, st2)
                     | Inr viols \<Rightarrow>
                         Inr (finish_bundle env repo_root cfg meta wt sn df stats viols
                                (out_dir_parts env repo_root (out_root cfg) (packet_id cfg)) st2))))
       | _ \<Rightarrow> Inl (AttributeError, st0)))"

definition collect_main :: "harness_env \<Rightarrow> (py_error \<times> fs_state) + harness_run" where
  "collect_main env =
     (case git_root (git_toplevel env) of
        Inl e \<Rightarrow>
          Inr (fallback env [''.codex/out'', ''unknown'']
                 (case e of RuntimeError msg \<Rightarrow> msg | _ \<Rightarrow> []))
      | Inr repo_root \<Rightarrow>
          (case contract_doc env of
             Inl msg \<Rightarrow> Inr (fallback env [repo_root, ''.codex/out'', ''unknown''] msg)
           | Inr contract \<Rightarrow> main_body env repo_root contract))"

subsection \<open>Reading the evidence record, and the format of numstat output\<close>

text \<open>
  \<^verbatim>\<open>evidence["constraints"]["violations"]\<close> and \<^verbatim>\<open>evidence["diff"][key]\<close> of an
  evidence record.
\<close>

definition evidence_violations :: "json \<Rightarrow> py_error + json" where
  "evidence_violations ev = bind (py_get ev ''constraints'' JNull) (\<lambda>c. py_get c ''violations'' JNull)"

definition evidence_diff :: "json \<Rightarrow> string \<Rightarrow> py_error + json" where
  "evidence_diff ev key = bind (py_get ev ''diff'' JNull) (\<lambda>d. py_get d key JNull)"

text \<open>
  \<^verbatim>\<open>git diff --numstat\<close> prints one line per changed file: the number of lines
  added, a tab, the number of lines deleted, a tab, and the path; for a binary file
  both numbers are printed as \<open>-\<close>. A row is the two counts (\<open>None\<close> for \<open>-\<close>) and
  the path. The path of a row is not empty, holds no line break and does not end in
  white space.
\<close>

definition numstat_count :: "nat option \<Rightarrow> string" where
  "numstat_count c = (case c of None \<Rightarrow> ''-'' | Some n \<Rightarrow> show_int (int n))"

definition numstat_row :: "nat option \<times> nat option \<times> string \<Rightarrow> string" where
  "numstat_row row =
     (case row of (a, d, path) \<Rightarrow>
        numstat_count a @ [CHR 0x09] @ numstat_count d @ [CHR 0x09] @ path)"

definition numstat_text :: "(nat option \<times> nat option \<times> string) list \<Rightarrow> string" where
  "numstat_text rows = concat (map (\<lambda>row. numstat_row row @ [CHR 0x0A]) rows)"

definition row_ok :: "nat option \<times> nat option \<times> string \<Rightarrow> bool" where
  "row_ok row =
     (case row of (a, d, path) \<Rightarrow>
        path \<noteq> [] \<and> \<not> is_space (last path) \<and> list_all (\<lambda>c. \<not> is_linebreak c) path)"

definition count_lines :: "nat option \<Rightarrow> int" where
  "count_lines c = (case c of None \<Rightarrow> 0 | Some n \<Rightarrow> int n)"

definition lines_added :: "(nat option \<times> nat option \<times> string) list \<Rightarrow> int" where
  "lines_added rows = sum_list (map (\<lambda>row. count_lines (fst row)) rows)"

definition lines_deleted :: "(nat option \<times> nat option \<times> string) list \<Rightarrow> int" where
  "lines_deleted rows = sum_list (map (\<lambda>row. count_lines (fst (snd row))) rows)"

subsection \<open>Raw snapshot files and the frame of a run\<close>



subsection \<open>A concrete run\<close>

text \<open>
  A packet \<open>p1\<close> whose contract allows only \<open>src/\<close> and at most 10 changed lines. The
  raw snapshot \<open>raw/head_before.txt\<close> exists from an earlier invocation and holds
  \<open>abc\<close>, while the worktree's head is now \<open>def\<close>. Since \<open>abc\<close>, the file
  \<open>docs/readme.md\<close> has changed, with 4 lines added and 8 deleted. The runner's
  record declares \<open>ALLOW\<close>.
\<close>

definition demo_git :: "string \<Rightarrow> string list \<Rightarrow> int \<times> string \<times> string" where
  "demo_git wt args =
     (if args = [''rev-parse'', ''HEAD''] then (0, ''def'' @ [CHR 0x0A], [])
      else if args = [''diff'', ''--name-only'', ''abc''] then (0, ''docs/readme.md'' @ [CHR 0x0A], [])
      else if args = [''diff'', ''--numstat'', ''abc'']
        then (0, ''4'' @ [CHR 0x09] @ ''8'' @ [CHR 0x09] @ ''docs/readme.md'' @ [CHR 0x0A], [])
      else if args = [''status'', ''--porcelain''] then (0, [], [])
      else (128, [], ''fatal''))"

text \<open>
  A stand-in for \<^verbatim>\<open>json.dumps\<close> in the concrete run: it prints the keys of an
  object, each followed by the keys of its value when that is an object.
\<close>

definition demo_dumps :: "json \<Rightarrow> string" where
  "demo_dumps v =
     (case v of
        JObj kvs \<Rightarrow>
          concat (map (\<lambda>kv. fst kv @ (case snd kv of JObj a \<Rightarrow> concat (map fst a) | _ \<Rightarrow> [])) kvs)
      | _ \<Rightarrow> [])"

definition demo_contract :: json where
  "demo_contract =
     JObj [(''packet_id'', JStr ''p1''), (''base_ref'', JStr ''main''), (''branch'', JStr ''b1''),
           (''allowed_paths'', JList [JStr ''src/'']),
           (''budgets'', JObj [(''max_changed_lines'', JInt 10)])]"

definition demo_env :: harness_env where
  "demo_env =
     \<lparr>fnmatch = (\<lambda>p a. False),
      repr = (\<lambda>v. []),
      dumps = demo_dumps,
      sha256_hex = (\<lambda>b. b),
      now = (\<lambda>k. ''2026-01-01T00:00:00Z''),
      git_toplevel = (0, ''/r'' @ [CHR 0x0A], []),
      git = demo_git,
      contract_doc = Inr demo_contract,
      meta_arg = Some ''meta.json'',
      meta_exists = True,
      meta_doc = Inr (JObj [(''decision'', JStr ''ALLOW'')]),
      wt_candidate = (\<lambda>r p. r @ ''/.codex/.worktrees/'' @ p),
      wt_candidate_exists = False,
      out_dir_parts = (\<lambda>r out p. [''/'', ''r'', out, p]),
      out_files = [([''raw'', ''head_before.txt''], ''abc'' @ [CHR 0x0A])]\<rparr>"

definition demo_cfg :: contract_cfg where
  "demo_cfg =
     \<lparr>packet_id = ''p1'', base_ref = ''main'', branch = ''b1'',
      allowed_paths = [JStr ''src/''], forbidden_outputs = [],
      budgets = [(''max_changed_lines'', JInt 10)], run_cfg = [], evidence_cfg = [],
      out_root = ''.codex/out'', include_patch = False\<rparr>"

definition demo_snaps :: snapshots where
  "demo_snaps = \<lparr>head_before = ''abc'', status_before = [], head_after = ''def'', status_after = []\<rparr>"

definition demo_violations :: "json list" where
  "demo_violations =
     [violation ''DIFF_OUTSIDE_ALLOWED_PATHS'' ''bad_paths'' (JList [JStr ''docs/readme.md'']),
      violation ''DIFF_BUDGET_EXCEEDED'' ''violations''
        (JList [JList [JStr ''max_changed_lines'', JInt 12, JInt 10]])]"

definition demo_run :: harness_run where
  "demo_run =
     (let t1 = take_snapshots demo_env ''/r'' \<lparr>store = out_files demo_env, writes = []\<rparr>;
          t2 = take_diffs demo_env ''/r'' False demo_snaps (snd t1)
      in finish_bundle demo_env ''/r'' demo_cfg [(''decision'', JStr ''ALLOW'')] ''/r'' demo_snaps
           (fst t2) (1, 4, 8) demo_violations [''/'', ''r'', ''.codex/out'', ''p1''] (snd t2))"

section \<open>Admission gate (g0\_enter\_work.py)\<close>

text \<open>
  The world the gate runs in:
  \<^item> \<open>g_repr\<close>, the \<^verbatim>\<open>repr\<close> of the interpreter (see \<open>py_str\<close>);
  \<^item> \<open>g_run cmd cwd\<close>, the result of \<^verbatim>\<open>run(cmd, cwd)\<close>: return code, standard output,
    standard error;
  \<^item> \<open>contract_arg\<close> and \<open>evidence_out\<close>, the command-line arguments; \<open>contract_exists\<close>,
    and \<open>contract_read\<close>, the outcome of reading and decoding the contract file (the
    decoded value, or the text of the exception);
  \<^item> \<open>g_exists\<close>, \<^verbatim>\<open>Path.exists\<close> at the moment the gate asks; \<open>g_resolve\<close>, the string of
    \<^verbatim>\<open>Path(p).resolve()\<close>; \<open>g_join a b\<close>, the string of \<^verbatim>\<open>Path(a) / b\<close>;
  \<^item> \<open>g_now\<close>, the value of \<^verbatim>\<open>utc_now()\<close>.
  Creating directories and writing the evidence file are taken to succeed, and
  \<^verbatim>\<open>subprocess.run\<close> to return; what the gate's own code can raise is modelled.
\<close>

record gate_env =
  g_repr :: "json \<Rightarrow> string"
  g_run :: "string list \<Rightarrow> string option \<Rightarrow> int \<times> string \<times> string"
  contract_arg :: string
  evidence_out :: "string option"
  contract_exists :: bool
  contract_read :: "string + json"
  g_exists :: "string \<Rightarrow> bool"
  g_resolve :: "string \<Rightarrow> string"
  g_join :: "string \<Rightarrow> string \<Rightarrow> string"
  g_now :: string

text \<open>\<^verbatim>\<open>git_root\<close> of the gate gives \<^verbatim>\<open>None\<close> when git fails.\<close>

definition g0_git_root :: "gate_env \<Rightarrow> string option" where
  "g0_git_root env =
     (case g_run env [''git'', ''rev-parse'', ''--show-toplevel''] None of (rc, out, err) \<Rightarrow>
        if rc \<noteq> 0 then None else Some (strip out))"

definition git_dir :: "gate_env \<Rightarrow> string \<Rightarrow> string option" where
  "git_dir env repo =
     (case g_run env [''git'', ''rev-parse'', ''--git-dir''] (Some repo) of (rc, out, err) \<Rightarrow>
        if rc \<noteq> 0 then None else Some (g_resolve env (g_join env repo (strip out))))"

definition git_rev_parse :: "gate_env \<Rightarrow> string \<Rightarrow> string \<Rightarrow> string option" where
  "git_rev_parse env repo ref =
     (case g_run env [''git'', ''rev-parse'', ''--verify'', ref] (Some repo) of (rc, out, err) \<Rightarrow>
        if rc \<noteq> 0 then None else Some (strip out))"

definition git_op_in_progress :: "gate_env \<Rightarrow> string \<Rightarrow> bool" where
  "git_op_in_progress env gitdir =
     list_ex (\<lambda>name. g_exists env (g_join env gitdir name))
       [''rebase-apply'', ''rebase-merge'', ''MERGE_HEAD'', ''CHERRY_PICK_HEAD'',
        ''REVERT_HEAD'', ''BISECT_LOG'', ''BISECT_NAMES'']"

text \<open>
  \<^verbatim>\<open>safe_read_json\<close>: the decoded contract and no message, or \<^verbatim>\<open>None\<close> (here
  \<open>JNull\<close>, which a contract file holding \<^verbatim>\<open>null\<close> gives as well) and a message.
\<close>

definition safe_read_json :: "gate_env \<Rightarrow> json \<times> string option" where
  "safe_read_json env =
     (if \<not> contract_exists env then (JNull, Some (''contract not found: '' @ contract_arg env))
      else (case contract_read env of
              Inr v \<Rightarrow> (v, None)
            | Inl e \<Rightarrow> (JNull, Some (''failed to parse contract json: '' @ e))))"

text \<open>
  \<^verbatim>\<open>parse_worktree_list\<close>: the registry as a dict from path to entry, an entry being a
  dict of strings. \<open>flush_entry\<close> is \<^verbatim>\<open>if current.get("path"): entries[...] = current\<close>.
\<close>

type_synonym wt_entry = "(string \<times> string) list"

definition flush_entry :: "(string \<times> wt_entry) list \<Rightarrow> wt_entry \<Rightarrow> (string \<times> wt_entry) list" where
  "flush_entry entries current =
     (case map_of current ''path'' of
        None \<Rightarrow> entries
      | Some p \<Rightarrow> if p = [] then entries else AList.update p current entries)"

fun parse_worktree_lines ::
  "string list \<Rightarrow> (string \<times> wt_entry) list \<Rightarrow> wt_entry \<Rightarrow> (string \<times> wt_entry) list" where
  "parse_worktree_lines [] entries current = flush_entry entries current"
| "parse_worktree_lines (line # lines) entries current =
     (if startswith line ''worktree '' then
        parse_worktree_lines lines (flush_entry entries current) [(''path'', strip (drop 9 line))]
      else if strip line = [] then parse_worktree_lines lines entries current
      else (case find_sep '' '' line of
              None \<Rightarrow> parse_worktree_lines lines entries (AList.update line [] current)
            | Some (key, val) \<Rightarrow>
                parse_worktree_lines lines entries (AList.update key (strip val) current)))"

definition parse_worktree_list :: "gate_env \<Rightarrow> string \<Rightarrow> (string \<times> wt_entry) list" where
  "parse_worktree_list env repo =
     (case g_run env [''git'', ''worktree'', ''list'', ''--porcelain''] (Some repo) of
        (rc, out, err) \<Rightarrow>
          if rc \<noteq> 0 then [] else parse_worktree_lines (splitlines out) [] [])"

definition worktree_branch :: "wt_entry \<Rightarrow> string option" where
  "worktree_branch entry =
     (case map_of entry ''branch'' of
        None \<Rightarrow> None
      | Some b \<Rightarrow>
          if b = [] then None
          else if startswith b ''refs/heads/'' then Some (drop 11 b)
          else Some b)"

text \<open>\<^verbatim>\<open>default_evidence_path\<close>; \<^verbatim>\<open>.get\<close> on a contract or an \<^verbatim>\<open>evidence\<close> value that is
  not a dict raises AttributeError.\<close>

definition default_evidence_path :: "gate_env \<Rightarrow> json \<Rightarrow> py_error + string" where
  "default_evidence_path env contract =
     (if truthy contract then
        bind (py_get contract ''packet_id'' JNull) (\<lambda>pid.
        bind (py_get contract ''evidence'' JNull) (\<lambda>ev.
        bind (py_get (py_or ev (JObj [])) ''out_dir'' JNull) (\<lambda>od.
          Inr (g_join env
                 (g_join env (py_str (g_repr env) (py_or od (JStr ''.codex/out'')))
                             (py_str (g_repr env) (py_or pid (JStr ''unknown''))))
                 ''g0_enter_work.json''))))
      else Inr (g_join env (g_join env ''.codex/out'' ''unknown'') ''g0_enter_work.json''))"

subsection \<open>Contract fields of the gate (lines 137 to 155)\<close>

record gate_cfg =
  gc_packet_id :: string
  gc_branch :: string
  gc_base_ref :: string
  gc_github_ops_required :: bool
  gc_worktree_root :: string
  gc_deny_if_exists :: bool

definition gate_defaults :: gate_cfg where
  "gate_defaults =
     \<lparr>gc_packet_id = [], gc_branch = [], gc_base_ref = [], gc_github_ops_required = False,
      gc_worktree_root = ''.codex/.worktrees'', gc_deny_if_exists = True\<rparr>"

definition gate_contract_fields :: "(json \<Rightarrow> string) \<Rightarrow> json \<Rightarrow> py_error + gate_cfg" where
  "gate_contract_fields rp contract =
     bind (py_get contract ''packet_id'' JNull) (\<lambda>pid.
     bind (py_get contract ''branch'' JNull) (\<lambda>br.
     bind (py_get contract ''base_ref'' JNull) (\<lambda>bref.
     bind (py_get contract ''github_ops_required'' (JBool False)) (\<lambda>gh.
     bind (py_get contract ''worktree_policy'' JNull) (\<lambda>pol.
     bind (py_get (py_or pol (JObj [])) ''worktree_root'' JNull) (\<lambda>wr.
     bind (py_get (py_or pol (JObj [])) ''deny_if_worktree_exists'' (JBool True)) (\<lambda>die.
       Inr \<lparr>gc_packet_id = py_str rp (py_or pid (JStr [])),
            gc_branch = py_str rp (py_or br (JStr [])),
            gc_base_ref = py_str rp (py_or bref (JStr [])),
            gc_github_ops_required = truthy gh,
            gc_worktree_root = py_str rp (py_or wr (JStr ''.codex/.worktrees'')),
            gc_deny_if_exists = truthy die\<rparr>)))))))"

subsection \<open>The checks (lines 157 to 236)\<close>

text \<open>
  What the checks read together: the repository root, the contract fields, the
  worktree path \<^verbatim>\<open>worktree_root / packet_id\<close> (absent without a root or a packet id),
  the registry, and whether the worktree path exists when the gate starts.
\<close>

record gate_ctx =
  cx_repo_root :: "string option"
  cx_cfg :: gate_cfg
  cx_wt_path :: "string option"
  cx_wt_list :: "(string \<times> wt_entry) list"
  cx_wt_exists :: bool

text \<open>The decision and the locals that end up in the evidence record.\<close>

record gate_state =
  gs_decision :: Decision
  gs_created :: bool
  gs_reused :: bool
  gs_collision :: bool
  gs_mismatch_detail :: string
  gs_base_sha :: string
  gs_head_ref :: string
  gs_head_sha :: string
  gs_ancestor :: "bool option"
  gs_push_probe :: "(int \<times> string \<times> string) option"

definition gate_state_init :: "Decision \<Rightarrow> gate_state" where
  "gate_state_init d =
     \<lparr>gs_decision = d, gs_created = False, gs_reused = False, gs_collision = False,
      gs_mismatch_detail = [], gs_base_sha = [], gs_head_ref = [], gs_head_sha = [],
      gs_ancestor = None, gs_push_probe = None\<rparr>"

definition check_deny_if_exists :: "gate_ctx \<Rightarrow> gate_state \<Rightarrow> gate_state" where
  "check_deny_if_exists cx s =
     (if allow (gs_decision s) \<and> cx_wt_path cx \<noteq> None \<and> cx_wt_exists cx
         \<and> gc_deny_if_exists (cx_cfg cx)
      then s\<lparr>gs_decision := deny (gs_decision s) ''WORKTREE_COLLISION''
                 ''worktree exists and deny_if_worktree_exists=true''\<rparr>
      else s)"

definition check_registered :: "gate_env \<Rightarrow> gate_ctx \<Rightarrow> gate_state \<Rightarrow> gate_state" where
  "check_registered env cx s =
     (case cx_wt_path cx of
        None \<Rightarrow> s
      | Some p \<Rightarrow>
          if allow (gs_decision s) \<and> cx_wt_exists cx
             \<and> g_resolve env p \<notin> set (map (\<lambda>e. g_resolve env (fst e)) (cx_wt_list cx))
          then s\<lparr>gs_collision := True,
                 gs_decision := deny (gs_decision s) ''WORKTREE_COLLISION''
                   ''worktree path exists but is not registered''\<rparr>
          else s)"

text \<open>\<^verbatim>\<open>wt_list.get(str(wt_path)) or wt_list.get(str(wt_path.resolve()))\<close>, then
  \<^verbatim>\<open>entry or {}\<close>.\<close>

definition registry_entry :: "gate_env \<Rightarrow> (string \<times> wt_entry) list \<Rightarrow> string \<Rightarrow> wt_entry" where
  "registry_entry env wt_list p =
     (case map_of wt_list p of
        Some e \<Rightarrow>
          if e \<noteq> [] then e
          else (case map_of wt_list (g_resolve env p) of None \<Rightarrow> [] | Some e' \<Rightarrow> e')
      | None \<Rightarrow> (case map_of wt_list (g_resolve env p) of None \<Rightarrow> [] | Some e' \<Rightarrow> e'))"

definition check_branch :: "gate_env \<Rightarrow> gate_ctx \<Rightarrow> gate_state \<Rightarrow> gate_state" where
  "check_branch env cx s =
     (case cx_wt_path cx of
        None \<Rightarrow> s
      | Some p \<Rightarrow>
          if allow (gs_decision s) \<and> cx_wt_exists cx then
            (let wt_branch = worktree_branch (registry_entry env (cx_wt_list cx) p);
                 br = gc_branch (cx_cfg cx)
             in if (case wt_branch of None \<Rightarrow> True | Some b \<Rightarrow> b = [] \<or> b \<noteq> br) then
                  (let detail = ''branch mismatch: expected '' @ br @ '', found ''
                                @ (case wt_branch of None \<Rightarrow> ''None'' | Some b \<Rightarrow> b)
                   in s\<lparr>gs_mismatch_detail := detail,
                         gs_decision := deny (gs_decision s) ''WORKTREE_MISMATCH'' detail\<rparr>)
                else s\<lparr>gs_reused := True\<rparr>)
          else s)"

definition create_worktree :: "gate_env \<Rightarrow> gate_ctx \<Rightarrow> gate_state \<Rightarrow> gate_state" where
  "create_worktree env cx s =
     (case cx_wt_path cx of
        None \<Rightarrow> s
      | Some p \<Rightarrow>
          if allow (gs_decision s) \<and> \<not> cx_wt_exists cx then
            (let br = gc_branch (cx_cfg cx);
                 rc_branch = fst (g_run env [''git'', ''show-ref'', ''--verify'', ''refs/heads/'' @ br]
                                    (cx_repo_root cx));
                 cmd = (if rc_branch = 0 then [''git'', ''worktree'', ''add'', p, br]
                        else [''git'', ''worktree'', ''add'', ''-b'', br, p, gc_base_ref (cx_cfg cx)])
             in case g_run env cmd (cx_repo_root cx) of (rc, out, err) \<Rightarrow>
                  if rc \<noteq> 0 then
                    s\<lparr>gs_decision := deny (gs_decision s) ''WORKTREE_MISMATCH''
                        (''git worktree add failed: ''
                         @ (if strip err \<noteq> [] then strip err else strip out))\<rparr>
                  else s\<lparr>gs_created := True\<rparr>)
          else s)"

definition check_op_in_progress :: "gate_env \<Rightarrow> gate_ctx \<Rightarrow> gate_state \<Rightarrow> gate_state" where
  "check_op_in_progress env cx s =
     (case cx_wt_path cx of
        None \<Rightarrow> s
      | Some p \<Rightarrow>
          if allow (gs_decision s) then
            (case git_dir env p of
               None \<Rightarrow> s
             | Some gdir \<Rightarrow>
                 if git_op_in_progress env gdir
                 then s\<lparr>gs_decision := deny (gs_decision s) ''GIT_OP_IN_PROGRESS''
                          ''git operation in progress in worktree''\<rparr>
                 else s)
          else s)"

definition check_ancestry :: "gate_env \<Rightarrow> gate_ctx \<Rightarrow> gate_state \<Rightarrow> gate_state" where
  "check_ancestry env cx s =
     (case (cx_wt_path cx, cx_repo_root cx) of
        (Some p, Some r) \<Rightarrow>
          if allow (gs_decision s) \<and> gc_base_ref (cx_cfg cx) \<noteq> [] then
            (let base_sha = (case git_rev_parse env r (gc_base_ref (cx_cfg cx)) of
                               None \<Rightarrow> [] | Some x \<Rightarrow> x);
                 head_sha = (case g_run env [''git'', ''rev-parse'', ''HEAD''] (Some p) of
                               (rc, out, err) \<Rightarrow> if rc = 0 then strip out else []);
                 head_ref = (case g_run env [''git'', ''rev-parse'', ''--abbrev-ref'', ''HEAD''] (Some p) of
                               (rc, out, err) \<Rightarrow> if rc = 0 then strip out else []);
                 s1 = s\<lparr>gs_base_sha := base_sha, gs_head_sha := head_sha, gs_head_ref := head_ref\<rparr>
             in if base_sha \<noteq> [] then
                  (case g_run env [''git'', ''merge-base'', ''HEAD'', base_sha] (Some p) of
                     (rc, out, err) \<Rightarrow>
                       (let anc = (rc = 0 \<and> strip out = base_sha)
                        in if anc then s1\<lparr>gs_ancestor := Some True\<rparr>
                           else s1\<lparr>gs_ancestor := Some False,
                                   gs_decision := deny (gs_decision s1) ''WORKTREE_MISMATCH''
                                     ''base_ref is not an ancestor of worktree HEAD''\<rparr>))
                else s1)
          else s
      | _ \<Rightarrow> s)"

definition push_probe :: "gate_env \<Rightarrow> gate_ctx \<Rightarrow> gate_state \<Rightarrow> gate_state" where
  "push_probe env cx s =
     (case cx_wt_path cx of
        None \<Rightarrow> s
      | Some p \<Rightarrow>
          if allow (gs_decision s) then
            (case g_run env [''git'', ''push'', ''--dry-run'', ''-u'', ''origin'',
                             ''HEAD:'' @ gc_branch (cx_cfg cx)] (Some p) of
               (rc, out, err) \<Rightarrow>
                 if gc_github_ops_required (cx_cfg cx) \<and> rc \<noteq> 0
                 then s\<lparr>gs_push_probe := Some (rc, out, err),
                        gs_decision := deny (gs_decision s) ''GH_PUSH_DENIED''
                          ''git push --dry-run failed''\<rparr>
                 else s\<lparr>gs_push_probe := Some (rc, out, err)\<rparr>)
          else s)"

definition gate_context :: "gate_env \<Rightarrow> string option \<Rightarrow> gate_cfg \<Rightarrow> Decision \<Rightarrow> gate_ctx" where
  "gate_context env repo_root cfg d =
     (let wt_path = (case repo_root of
                       None \<Rightarrow> None
                     | Some r \<Rightarrow>
                         if gc_packet_id cfg \<noteq> []
                         then Some (g_join env (g_join env r (gc_worktree_root cfg)) (gc_packet_id cfg))
                         else None)
      in \<lparr>cx_repo_root = repo_root, cx_cfg = cfg, cx_wt_path = wt_path,
           cx_wt_list = (case repo_root of
                           None \<Rightarrow> []
                         | Some r \<Rightarrow> if allow d then parse_worktree_list env r else []),
           cx_wt_exists = (case wt_path of None \<Rightarrow> False | Some p \<Rightarrow> g_exists env p)\<rparr>)"

definition gate_checks :: "gate_env \<Rightarrow> gate_ctx \<Rightarrow> Decision \<Rightarrow> gate_state" where
  "gate_checks env cx d =
     push_probe env cx
       (check_ancestry env cx
          (check_op_in_progress env cx
             (create_worktree env cx
                (check_branch env cx
                   (check_registered env cx
                      (check_deny_if_exists cx (gate_state_init d)))))))"

subsection \<open>Evidence record and main (lines 123 to 264)\<close>

record g0_evidence =
  ev_stage :: string
  ev_timestamp_utc :: string
  ev_repo_root :: "string option"
  ev_packet_id :: string
  ev_branch :: string
  ev_base_ref :: string
  ev_base_sha :: "string option"
  ev_head_ref :: string
  ev_head_sha :: "string option"
  ev_github_ops_required :: bool
  ev_worktree_root :: string
  ev_deny_if_worktree_exists :: bool
  ev_worktree_path :: "string option"
  worktree_created :: bool
  worktree_reused :: bool
  collision :: bool
  mismatch_detail :: "string option"
  base_ref_is_ancestor :: "bool option"
  ev_push_probe :: "(int \<times> string \<times> string) option"
  ev_decision :: string
  ev_deny_code :: "string option"
  ev_message :: "string option"

definition nonempty :: "string \<Rightarrow> string option" where
  "nonempty s = (if s = [] then None else Some s)"

definition make_evidence :: "gate_env \<Rightarrow> gate_ctx \<Rightarrow> gate_state \<Rightarrow> g0_evidence" where
  "make_evidence env cx s =
     \<lparr>ev_stage = ''G0'',
      ev_timestamp_utc = g_now env,
      ev_repo_root = cx_repo_root cx,
      ev_packet_id = gc_packet_id (cx_cfg cx),
      ev_branch = gc_branch (cx_cfg cx),
      ev_base_ref = gc_base_ref (cx_cfg cx),
      ev_base_sha = nonempty (gs_base_sha s),
      ev_head_ref = gs_head_ref s,
      ev_head_sha = nonempty (gs_head_sha s),
      ev_github_ops_required = gc_github_ops_required (cx_cfg cx),
      ev_worktree_root = gc_worktree_root (cx_cfg cx),
      ev_deny_if_worktree_exists = gc_deny_if_exists (cx_cfg cx),
      ev_worktree_path = cx_wt_path cx,
      worktree_created = gs_created s,
      worktree_reused = gs_reused s,
      collision = gs_collision s,
      mismatch_detail = nonempty (gs_mismatch_detail s),
      base_ref_is_ancestor = gs_ancestor s,
      ev_push_probe = gs_push_probe s,
      ev_decision = (if allow (gs_decision s) then ''ALLOW'' else ''DENY''),
      ev_deny_code = deny_code (gs_decision s),
      ev_message = message (gs_decision s)\<rparr>"

text \<open>
  The outcome of a run of the gate that returns: the exit code, and the evidence
  record written to the evidence path. An exception (\<open>Inl\<close>) leaves the gate before
  anything is written.
\<close>

record g0_run =
  g_exit_code :: int
  g_evidence_path :: string
  g_evidence :: g0_evidence

definition evidence_path_of :: "gate_env \<Rightarrow> json \<Rightarrow> py_error + string" where
  "evidence_path_of env contract =
     (case evidence_out env of
        None \<Rightarrow> default_evidence_path env contract
      | Some a \<Rightarrow> if a \<noteq> [] then Inr a else default_evidence_path env contract)"

definition contract_decision :: "gate_env \<Rightarrow> json \<Rightarrow> string option \<Rightarrow> py_error + (gate_cfg \<times> Decision)" where
  "contract_decision env contract contract_err =
     (if contract = JNull then
        Inr (gate_defaults,
             deny Decision_init ''WORKTREE_MISMATCH''
               (case contract_err of
                  None \<Rightarrow> ''contract parse failed''
                | Some m \<Rightarrow> if m \<noteq> [] then m else ''contract parse failed''))
      else
        bind (gate_contract_fields (g_repr env) contract) (\<lambda>cfg.
          Inr (cfg,
               if gc_packet_id cfg = [] \<or> gc_branch cfg = [] \<or> gc_base_ref cfg = []
               then deny Decision_init ''WORKTREE_MISMATCH''
                      ''contract missing packet_id/branch/base_ref''
               else Decision_init)))"

definition g0_main :: "gate_env \<Rightarrow> py_error + g0_run" where
  "g0_main env =
     (let repo_root = g0_git_root env;
          rd = safe_read_json env
      in bind (evidence_path_of env (fst rd)) (\<lambda>evidence_path.
         bind (contract_decision env (fst rd) (snd rd)) (\<lambda>cd.
           (let d2 = (if repo_root = None
                      then deny (snd cd) ''WORKTREE_MISMATCH'' ''not a git repository''
                      else snd cd);
                cx = gate_context env repo_root (fst cd) d2;
                s = gate_checks env cx d2
            in Inr \<lparr>g_exit_code = (if allow (gs_decision s) then 0 else 2),
                    g_evidence_path = evidence_path,
                    g_evidence = make_evidence env cx s\<rparr>))))"

subsection \<open>Predicates on a run of the gate\<close>

definition is_dict :: "json \<Rightarrow> bool" where
  "is_dict v = (case v of JObj kvs \<Rightarrow> True | _ \<Rightarrow> False)"

text \<open>
  The decoded contract lets the gate's own code run without an exception: it is
  \<^verbatim>\<open>None\<close>, or a dict whose \<^verbatim>\<open>worktree_policy\<close> is falsy or a dict and, when the
  default evidence path is computed from a non-empty contract, whose \<^verbatim>\<open>evidence\<close> is
  falsy or a dict.
\<close>

definition evidence_out_given :: "gate_env \<Rightarrow> bool" where
  "evidence_out_given env = (case evidence_out env of None \<Rightarrow> False | Some a \<Rightarrow> a \<noteq> [])"

definition gate_contract_ok :: "gate_env \<Rightarrow> bool" where
  "gate_contract_ok env =
     (case fst (safe_read_json env) of
        JNull \<Rightarrow> True
      | JObj kvs \<Rightarrow>
          is_dict (py_or (dict_get kvs ''worktree_policy'' JNull) (JObj []))
          \<and> (evidence_out_given env \<or> kvs = []
               \<or> is_dict (py_or (dict_get kvs ''evidence'' JNull) (JObj [])))
      | _ \<Rightarrow> False)"

text \<open>
  The checks after the worktree has been reconciled find nothing: no git operation is
  in progress in the worktree, the resolved base commit (if any) is the merge base
  with the worktree's head, and the dry-run push succeeds or is not required.
\<close>

definition no_op_in_progress :: "gate_env \<Rightarrow> string \<Rightarrow> bool" where
  "no_op_in_progress env wt_path =
     (case git_dir env wt_path of None \<Rightarrow> True | Some gdir \<Rightarrow> \<not> git_op_in_progress env gdir)"

definition ancestry_ok :: "gate_env \<Rightarrow> gate_cfg \<Rightarrow> string \<Rightarrow> string \<Rightarrow> bool" where
  "ancestry_ok env cfg repo_root wt_path =
     (case git_rev_parse env repo_root (gc_base_ref cfg) of
        None \<Rightarrow> True
      | Some base_sha \<Rightarrow>
          base_sha = []
          \<or> (case g_run env [''git'', ''merge-base'', ''HEAD'', base_sha] (Some wt_path) of
                (rc, out, err) \<Rightarrow> rc = 0 \<and> strip out = base_sha))"

definition push_ok :: "gate_env \<Rightarrow> gate_cfg \<Rightarrow> string \<Rightarrow> bool" where
  "push_ok env cfg wt_path =
     (\<not> gc_github_ops_required cfg
      \<or> fst (g_run env [''git'', ''push'', ''--dry-run'', ''-u'', ''origin'',
                        ''HEAD:'' @ gc_branch cfg] (Some wt_path)) = 0)"

subsection \<open>Concrete runs of the gate\<close>

text \<open>
  A repository \<open>/r\<close> in which the worktree \<open>/r/.codex/.worktrees/p1\<close> of packet
  \<open>p1\<close> exists, is registered and is bound to branch \<open>b1\<close>; \<open>main\<close> is an ancestor of
  its head and the dry-run push succeeds. The contract is the parameter.
\<close>

definition reentry_run :: "string list \<Rightarrow> string option \<Rightarrow> int \<times> string \<times> string" where
  "reentry_run cmd cwd =
     (if cmd = [''git'', ''rev-parse'', ''--show-toplevel''] then (0, ''/r'' @ [CHR 0x0A], [])
      else if cmd = [''git'', ''worktree'', ''list'', ''--porcelain''] then
        (0, ''worktree /r'' @ [CHR 0x0A] @ ''HEAD abc'' @ [CHR 0x0A]
            @ ''branch refs/heads/main'' @ [CHR 0x0A, CHR 0x0A]
            @ ''worktree /r/.codex/.worktrees/p1'' @ [CHR 0x0A] @ ''HEAD def'' @ [CHR 0x0A]
            @ ''branch refs/heads/b1'' @ [CHR 0x0A, CHR 0x0A], [])
      else if cmd = [''git'', ''rev-parse'', ''--git-dir''] then
        (0, ''/r/.git/worktrees/p1'' @ [CHR 0x0A], [])
      else if cmd = [''git'', ''rev-parse'', ''--verify'', ''main''] then (0, ''abc'' @ [CHR 0x0A], [])
      else if cmd = [''git'', ''rev-parse'', ''HEAD''] then (0, ''def'' @ [CHR 0x0A], [])
      else if cmd = [''git'', ''rev-parse'', ''--abbrev-ref'', ''HEAD''] then (0, ''b1'' @ [CHR 0x0A], [])
      else if cmd = [''git'', ''merge-base'', ''HEAD'', ''abc''] then (0, ''abc'' @ [CHR 0x0A], [])
      else if cmd = [''git'', ''push'', ''--dry-run'', ''-u'', ''origin'', ''HEAD:b1''] then (0, [], [])
      else (1, [], ''fatal''))"

definition reentry_env :: "json \<Rightarrow> gate_env" where
  "reentry_env contract =
     \<lparr>g_repr = (\<lambda>v. []),
      g_run = reentry_run,
      contract_arg = ''contract.json'',
      evidence_out = None,
      contract_exists = True,
      contract_read = Inr contract,
      g_exists = (\<lambda>p. p = ''/r/.codex/.worktrees/p1''),
      g_resolve = (\<lambda>p. p),
      g_join = (\<lambda>a b. if startswith b ''/'' then b else a @ ''/'' @ b),
      g_now = ''2026-01-01T00:00:00Z''\<rparr>"

definition reentry_contract :: json where
  "reentry_contract =
     JObj [(''packet_id'', JStr ''p1''), (''branch'', JStr ''b1''), (''base_ref'', JStr ''main'')]"

definition resume_contract :: json where
  "resume_contract =
     JObj [(''packet_id'', JStr ''p1''), (''branch'', JStr ''b1''), (''base_ref'', JStr ''main''),
           (''worktree_policy'', JObj [(''deny_if_worktree_exists'', JBool False)])]"

section \<open>Properties of the decision accumulator\<close>

lemma deny_all_denied: "\<not> allow d \<Longrightarrow> deny_all d calls = d"
  by (induction calls arbitrary: d) (auto simp: deny_def)

text \<open>
  Claim C4. For every sequence of deny calls on a Decision that starts with
  \<open>allow = True\<close>: the first call sets \<open>allow\<close> to False and records exactly that
  call's code and message; every later call leaves the three fields unchanged (so the
  value after the whole sequence is the value after the first call); and a Decision
  whose \<open>allow\<close> is False stays as it is under any further sequence of deny calls, so
  \<open>allow\<close> never reverts to True.
\<close>

theorem deny_first_wins:
  "(allow d \<longrightarrow>
      deny d code msg = d\<lparr>allow := False, deny_code := Some code, message := Some msg\<rparr>
      \<and> deny_all d ((code, msg) # calls) = deny d code msg)
   \<and> (\<not> allow d \<longrightarrow> deny d code msg = d \<and> deny_all d calls = d
        \<and> \<not> allow (deny_all d calls))"
  by (simp add: deny_all_denied deny_def)

theorem deny_first_wins_witness:
  "allow Decision_init
   \<and> deny_all Decision_init [(''WORKTREE_COLLISION'', ''a''), (''GH_PUSH_DENIED'', ''b'')]
       = \<lparr>allow = False, deny_code = Some ''WORKTREE_COLLISION'', message = Some ''a''\<rparr>
   \<and> \<not> allow (deny Decision_init ''WORKTREE_COLLISION'' ''a'')
   \<and> deny (deny Decision_init ''WORKTREE_COLLISION'' ''a'') ''GH_PUSH_DENIED'' ''b''
       = deny Decision_init ''WORKTREE_COLLISION'' ''a''"
  using deny_first_wins [of Decision_init "''WORKTREE_COLLISION''" "''a''"
                            "[(''GH_PUSH_DENIED'', ''b'')]"]
        deny_first_wins [of "deny Decision_init ''WORKTREE_COLLISION'' ''a''"
                            "''GH_PUSH_DENIED''" "''b''" "[]"]
  by (simp add: Decision_init_def deny_def)

section \<open>Properties of the path matcher\<close>

lemma normalize_path_dots:
  "normalize_path (replicate n (CHR ''.'') @ s) = normalize_path s"
proof -
  have "dropWhile (\<lambda>c. c \<in> set ''./'') (replicate n (CHR ''.'') @ replace_backslash s)
        = dropWhile (\<lambda>c. c \<in> set ''./'') (replace_backslash s)"
    by (rule dropWhile_append2) simp
  then show ?thesis
    by (simp add: normalize_path_def lstrip_chars_def replace_backslash_def)
qed

lemma normalize_path_no_lead:
  "takeWhile (\<lambda>c. c = CHR ''.'' \<or> c = CHR ''/'') (normalize_path s) = []"
proof -
  let ?P = "\<lambda>c. c \<in> set ''./''"
  have "takeWhile ?P (dropWhile ?P (replace_backslash s)) = []"
    by (metis takeWhile_eq_Nil_iff hd_dropWhile)
  then show ?thesis
    by (simp add: normalize_path_def lstrip_chars_def)
qed

text \<open>
  Claim C9. The normalisation shared by both matchers drops every leading \<open>.\<close> and
  \<open>/\<close> (after turning backslashes into slashes), so its result never starts with
  either character. Hence a path whose first component starts with dots, such as
  \<open>.codex/x\<close>, is compared as \<open>codex/x\<close> and is matched by the dotless pattern
  \<open>codex/\<close> in both matchers; and neither matcher can tell a dot-prefixed path or
  pattern from its dotless counterpart: prefixing any number of dots to the path, or to
  a pattern, never changes the answer.
\<close>

theorem normalize_path_strips_leading_dots:
  "normalize_path s = dropWhile (\<lambda>c. c = CHR ''.'' \<or> c = CHR ''/'') (replace_backslash s)
   \<and> takeWhile (\<lambda>c. c = CHR ''.'' \<or> c = CHR ''/'') (normalize_path s) = []
   \<and> normalize_path ''.codex/x'' = ''codex/x''
   \<and> matches_allowed fnm (replicate n (CHR ''.'') @ ''codex/x'') [''codex/'']
   \<and> matches_any fnm (replicate n (CHR ''.'') @ ''codex/x'') [''codex/'']
   \<and> matches_allowed fnm (replicate n (CHR ''.'') @ p) allowed = matches_allowed fnm p allowed
   \<and> matches_any fnm (replicate n (CHR ''.'') @ p) patterns = matches_any fnm p patterns
   \<and> matches_allowed fnm p ((replicate n (CHR ''.'') @ a) # allowed)
       = matches_allowed fnm p (a # allowed)
   \<and> matches_any fnm p ((replicate n (CHR ''.'') @ a) # patterns)
       = matches_any fnm p (a # patterns)"
proof -
  have ex: "normalize_path ''codex/x'' = ''codex/x''" "normalize_path ''codex/'' = ''codex/''"
    "normalize_path ''.codex/x'' = ''codex/x''"
    by (simp_all add: normalize_path_def lstrip_chars_def replace_backslash_def)
  have nw: "\<not> has_wildcard ''codex/''"
    by (simp add: has_wildcard_def)
  have rs: "rstrip_chars ''/'' ''codex/'' = ''codex''"
    by (simp add: rstrip_chars_def)
  have 1: "normalize_path s = dropWhile (\<lambda>c. c = CHR ''.'' \<or> c = CHR ''/'') (replace_backslash s)"
    by (simp add: normalize_path_def lstrip_chars_def)
  have 4: "matches_allowed fnm (replicate n (CHR ''.'') @ ''codex/x'') [''codex/'']"
    by (simp add: matches_allowed_def normalize_path_dots ex nw rs startswith_def)
  have 5: "matches_any fnm (replicate n (CHR ''.'') @ ''codex/x'') [''codex/'']"
    by (simp add: matches_any_def normalize_path_dots ex nw rs startswith_def)
  show ?thesis
    using 1 4 5 normalize_path_no_lead [of s] ex(3)
    by (simp add: matches_allowed_def matches_any_def normalize_path_dots)
qed

section \<open>Properties of the evidence harness\<close>

lemma finish_bundle_fields:
  "exit_code (finish_bundle env rr cfg meta wt sn df stats viols dp st) = 0"
  "out_dir (finish_bundle env rr cfg meta wt sn df stats viols dp st) = dp"
  "violations (finish_bundle env rr cfg meta wt sn df stats viols dp st) = viols"
  "decision (finish_bundle env rr cfg meta wt sn df stats viols dp st) = final_decision meta viols"
  "reasons (finish_bundle env rr cfg meta wt sn df stats viols dp st) = final_reasons (repr env) meta viols"
  "snaps (finish_bundle env rr cfg meta wt sn df stats viols dp st) = Some sn"
  "observed (finish_bundle env rr cfg meta wt sn df stats viols dp st) = Some df"
  "total_lines (finish_bundle env rr cfg meta wt sn df stats viols dp st) = fst (snd stats) + snd (snd stats)"
  by (simp_all add: finish_bundle_def Let_def split: prod.splits)

lemma main_body_bundle:
  assumes "main_body env repo_root contract = Inr r"
  shows "\<exists>cfg meta wt stats viols t1 t2.
     contract_fields (repr env) contract = Inr cfg \<and> load_meta env = JObj meta \<and>
     worktree_of env repo_root (packet_id cfg) (dict_get meta ''worktree_path'' JNull) = Inr wt \<and>
     t1 = take_snapshots env wt \<lparr>store = out_files env, writes = []\<rparr> \<and>
     t2 = take_diffs env wt (include_patch cfg) (fst t1) (snd t1) \<and>
     numstat_totals (git_capture env wt [''diff'', ''--numstat'', head_before (fst t1)]) = Inr stats \<and>
     constraint_violations (fnmatch env) cfg (changed_paths (fst t2)) (status_paths_after (fst t2))
        (fst (snd stats) + snd (snd stats)) = Inr viols \<and>
     r = finish_bundle env repo_root cfg meta wt (fst t1) (fst t2) stats viols
           (out_dir_parts env repo_root (out_root cfg) (packet_id cfg)) (snd t2)"
  using assms unfolding main_body_def
  by (auto simp: Let_def split_def split: sum.splits json.splits)

lemma demo_git_root: "git_root (git_toplevel demo_env) = Inr ''/r''"
  by code_simp

lemma demo_contract_doc: "contract_doc demo_env = Inr demo_contract"
  by (simp add: demo_env_def)

lemma demo_fields: "contract_fields (repr demo_env) demo_contract = Inr demo_cfg"
  by code_simp

lemma demo_meta: "load_meta demo_env = JObj [(''decision'', JStr ''ALLOW'')]"
  by code_simp

lemma demo_worktree:
  "worktree_of demo_env ''/r'' ''p1'' (dict_get [(''decision'', JStr ''ALLOW'')] ''worktree_path'' JNull) = Inr ''/r''"
  by code_simp

lemma demo_take_snapshots:
  "fst (take_snapshots demo_env ''/r'' \<lparr>store = out_files demo_env, writes = []\<rparr>) = demo_snaps"
  by code_simp

lemma demo_changed:
  "changed_paths (fst (take_diffs demo_env ''/r'' False demo_snaps st)) = [''docs/readme.md'']"
  "status_paths_after (fst (take_diffs demo_env ''/r'' False demo_snaps st)) = []"
  by (simp_all add: take_diffs_def Let_def paths_from_porcelain_def List.map_filter_def
       stripped_lines_def nonblank_lines_def git_capture_def demo_env_def demo_git_def
       demo_snaps_def splitlines_def is_linebreak_def strip_def is_space_def)

lemma demo_numstat:
  "numstat_totals (git_capture demo_env ''/r'' [''diff'', ''--numstat'', ''abc'']) = Inr (1, 4, 8)"
  by code_simp

lemma demo_constraints:
  "constraint_violations (fnmatch demo_env) demo_cfg [''docs/readme.md''] [] 12 = Inr demo_violations"
  by code_simp

lemma demo_collect: "collect_main demo_env = Inr demo_run"
proof -
  have hb: "head_before demo_snaps = ''abc''" by (simp add: demo_snaps_def)
  have c: "packet_id demo_cfg = ''p1''" "include_patch demo_cfg = False" "out_root demo_cfg = ''.codex/out''"
    by (simp_all add: demo_cfg_def)
  have od: "out_dir_parts demo_env = (\<lambda>r out p. [''/'', ''r'', out, p])"
    by (simp add: demo_env_def)
  show ?thesis
    unfolding collect_main_def main_body_def demo_run_def
    by (simp add: demo_git_root demo_contract_doc demo_fields demo_meta c demo_worktree
          split_def Let_def demo_take_snapshots demo_changed hb demo_numstat demo_constraints od)
qed

lemma collect_main_bundle:
  assumes "git_root (git_toplevel env) = Inr repo_root" "contract_doc env = Inr contract"
  shows "collect_main env = main_body env repo_root contract"
  using assms by (simp add: collect_main_def)

lemma collect_main_exit_code:
  assumes "collect_main env = Inr r"
  shows "exit_code r = (if isl (git_root (git_toplevel env)) \<or> isl (contract_doc env) then 2 else 0)"
proof (cases "git_root (git_toplevel env)")
  case (Inl e)
  with assms show ?thesis by (auto simp: collect_main_def fallback_def Let_def)
next
  case root: (Inr repo_root)
  show ?thesis
  proof (cases "contract_doc env")
    case (Inl msg)
    with root assms show ?thesis by (auto simp: collect_main_def fallback_def Let_def)
  next
    case (Inr contract)
    with root assms have "main_body env repo_root contract = Inr r"
      by (simp add: collect_main_def)
    from main_body_bundle [OF this] have "exit_code r = 0"
      by (auto simp: finish_bundle_fields)
    with root Inr show ?thesis by simp
  qed
qed

lemma evidence_decision_field:
  "py_get (build_evidence env rr cfg meta wt sn df stats viols te arts) ''decision'' JNull
     = Inr (final_decision meta viols)"
  "py_get (build_evidence env rr cfg meta wt sn df stats viols te arts) ''reasons'' JNull
     = Inr (JList (final_reasons (repr env) meta viols))"
  "py_get (build_evidence env rr cfg meta wt sn df stats viols te arts) ''artifacts'' JNull
     = Inr arts"
  by (simp_all add: build_evidence_def Let_def dict_get_def split: prod.splits)

lemma finish_bundle_evidence:
  "\<exists>te arts. evidence (finish_bundle env rr cfg meta wt sn df stats viols dp st)
      = build_evidence env rr cfg meta wt sn df stats viols te arts"
  by (simp add: finish_bundle_def Let_def) blast

lemma final_decision_cases:
  "final_decision meta viols =
     (if viols \<noteq> [] then JStr ''DENY''
      else if dict_get meta ''decision'' JNull = JStr ''ALLOW'' then JStr ''ALLOW''
      else if dict_get meta ''decision'' JNull = JStr ''DENY'' then JStr ''DENY''
      else JStr ''ALLOW'')"
  by (simp add: final_decision_def Let_def)

text \<open>
  Claim C6. In every harness run that produces the bundle, the decision and the reasons
  written to the evidence record are these: if at least one violation exists the
  decision is \<open>DENY\<close>; if moreover the run-metadata record declares \<open>ALLOW\<close>, the
  string \<open>constraint_violations\<close> is appended to the record's reasons (to its list
  when it has one, to the empty list when it has none). With no violation, a declared
  \<open>ALLOW\<close> or \<open>DENY\<close> is kept, and without a declared decision the decision is
  \<open>ALLOW\<close>.
\<close>

theorem harness_decision_authoritative:
  assumes "git_root (git_toplevel env) = Inr repo_root"
      and "contract_doc env = Inr contract"
      and "load_meta env = JObj meta"
      and "collect_main env = Inr r"
  shows "py_get (evidence r) ''decision'' JNull = Inr (decision r)
     \<and> py_get (evidence r) ''reasons'' JNull = Inr (JList (reasons r))
     \<and> (violations r \<noteq> [] \<longrightarrow> decision r = JStr ''DENY'')
     \<and> (violations r \<noteq> [] \<and> dict_get meta ''decision'' JNull = JStr ''ALLOW'' \<longrightarrow>
           decision r = JStr ''DENY''
           \<and> last (reasons r) = JStr ''constraint_violations''
           \<and> (dict_get meta ''reasons'' JNull = JList xs \<longrightarrow>
                 reasons r = xs @ [JStr ''constraint_violations''])
           \<and> (map_of meta ''reasons'' = None \<longrightarrow> reasons r = [JStr ''constraint_violations'']))
     \<and> (violations r = [] \<and> dict_get meta ''decision'' JNull = JStr ''ALLOW'' \<longrightarrow>
           decision r = JStr ''ALLOW'')
     \<and> (violations r = [] \<and> dict_get meta ''decision'' JNull = JStr ''DENY'' \<longrightarrow>
           decision r = JStr ''DENY'')
     \<and> (violations r = [] \<and> map_of meta ''decision'' = None \<longrightarrow> decision r = JStr ''ALLOW'')"
proof -
  from assms have "main_body env repo_root contract = Inr r"
    by (simp add: collect_main_def)
  from main_body_bundle [OF this] assms(3)
  obtain cfg wt stats viols sn df dp st where
    r: "r = finish_bundle env repo_root cfg meta wt sn df stats viols dp st"
    by auto
  obtain te arts where ev: "evidence r = build_evidence env repo_root cfg meta wt sn df stats viols te arts"
    using finish_bundle_evidence r by blast
  have d: "decision r = final_decision meta viols" "reasons r = final_reasons (repr env) meta viols"
    "violations r = viols"
    by (simp_all add: r finish_bundle_fields)
  have 1: "py_get (evidence r) ''decision'' JNull = Inr (decision r)"
    "py_get (evidence r) ''reasons'' JNull = Inr (JList (reasons r))"
    by (simp_all add: ev d evidence_decision_field)
  have 2: "viols \<noteq> [] \<Longrightarrow> dict_get meta ''decision'' JNull = JStr ''ALLOW'' \<Longrightarrow>
      last (final_reasons (repr env) meta viols) = JStr ''constraint_violations''"
    by (simp add: final_reasons_def Let_def)
  have 3: "viols \<noteq> [] \<Longrightarrow> dict_get meta ''decision'' JNull = JStr ''ALLOW'' \<Longrightarrow>
      dict_get meta ''reasons'' JNull = JList xs \<Longrightarrow>
      final_reasons (repr env) meta viols = xs @ [JStr ''constraint_violations'']"
    by (cases xs) (simp_all add: final_reasons_def Let_def py_or_def)
  have 4: "viols \<noteq> [] \<Longrightarrow> dict_get meta ''decision'' JNull = JStr ''ALLOW'' \<Longrightarrow>
      map_of meta ''reasons'' = None \<Longrightarrow>
      final_reasons (repr env) meta viols = [JStr ''constraint_violations'']"
    by (simp add: final_reasons_def Let_def py_or_def dict_get_def)
  have 5: "map_of meta ''decision'' = None \<Longrightarrow> dict_get meta ''decision'' JNull = JNull"
    by (simp add: dict_get_def)
  show ?thesis
    using 1 2 3 4 5 by (auto simp: d final_decision_cases)
qed

theorem harness_decision_authoritative_witness:
  "git_root (git_toplevel demo_env) = Inr ''/r''
   \<and> contract_doc demo_env = Inr demo_contract
   \<and> load_meta demo_env = JObj [(''decision'', JStr ''ALLOW'')]
   \<and> collect_main demo_env = Inr demo_run
   \<and> violations demo_run \<noteq> []
   \<and> decision demo_run = JStr ''DENY''
   \<and> reasons demo_run = [JStr ''constraint_violations'']"
proof -
  have v: "violations demo_run = demo_violations"
    by (simp add: demo_run_def Let_def finish_bundle_fields)
  have ne: "demo_violations \<noteq> []" by (simp add: demo_violations_def)
  have m: "dict_get [(''decision'', JStr ''ALLOW'')] ''decision'' JNull = JStr ''ALLOW''"
    "map_of [(''decision'', JStr ''ALLOW'')] ''reasons'' = None"
    by (simp_all add: dict_get_def)
  show ?thesis
    using harness_decision_authoritative [OF demo_git_root demo_contract_doc demo_meta demo_collect]
      v ne m demo_git_root demo_contract_doc demo_meta demo_collect
    by simp
qed

text \<open>
  Claim C1 as stated fails: in the concrete run the repository is found and the
  contract is decoded, the bundle's decision is \<open>DENY\<close>, and the exit code is 0.
\<close>

theorem harness_exit_code_counterexample:
  "git_root (git_toplevel demo_env) = Inr ''/r''
   \<and> contract_doc demo_env = Inr demo_contract
   \<and> collect_main demo_env = Inr demo_run
   \<and> decision demo_run = JStr ''DENY''
   \<and> exit_code demo_run = 0"
proof -
  have "decision demo_run = final_decision [(''decision'', JStr ''ALLOW'')] demo_violations"
    by (simp add: demo_run_def Let_def finish_bundle_fields)
  then have "decision demo_run = JStr ''DENY''"
    by (simp add: final_decision_cases demo_violations_def)
  moreover have "exit_code demo_run = 0"
    by (simp add: demo_run_def Let_def finish_bundle_fields)
  ultimately show ?thesis
    by (simp add: demo_git_root demo_contract_doc demo_collect)
qed

text \<open>
  Claim C1, amended. A run of the harness that returns has exit code 0 or 2. It is 2
  exactly when the repository cannot be located or the contract cannot be read and
  decoded (the minimal record is written then), and 0 exactly when both succeed,
  whatever the bundle's decision: the decision, \<open>ALLOW\<close> or \<open>DENY\<close>, is reported in
  the evidence record and not through the exit code.
\<close>

theorem harness_exit_code:
  assumes "collect_main env = Inr r"
  shows "(exit_code r = 0 \<or> exit_code r = 2)
     \<and> (exit_code r = 2 \<longleftrightarrow> isl (git_root (git_toplevel env)) \<or> isl (contract_doc env))
     \<and> (exit_code r = 0 \<longleftrightarrow>
          (\<exists>repo_root contract. git_root (git_toplevel env) = Inr repo_root
                                \<and> contract_doc env = Inr contract))
     \<and> (exit_code r = 0 \<longrightarrow> decision r = JStr ''ALLOW'' \<or> decision r = JStr ''DENY'')"
proof -
  note ec = collect_main_exit_code [OF assms]
  have iff: "(\<exists>repo_root contract. git_root (git_toplevel env) = Inr repo_root
                \<and> contract_doc env = Inr contract)
      \<longleftrightarrow> \<not> (isl (git_root (git_toplevel env)) \<or> isl (contract_doc env))"
    by (cases "git_root (git_toplevel env)"; cases "contract_doc env") auto
  have dec: "decision r = JStr ''ALLOW'' \<or> decision r = JStr ''DENY''" if "exit_code r = 0"
  proof -
    from that ec iff obtain repo_root contract where
      "git_root (git_toplevel env) = Inr repo_root" "contract_doc env = Inr contract"
      by (auto split: if_splits)
    with assms have "main_body env repo_root contract = Inr r"
      by (simp add: collect_main_def)
    from main_body_bundle [OF this]
    obtain cfg meta wt stats viols sn df dp st where
      "r = finish_bundle env repo_root cfg meta wt sn df stats viols dp st"
      by auto
    then have "decision r = final_decision meta viols"
      by (simp add: finish_bundle_fields)
    then show ?thesis
      by (simp add: final_decision_cases)
  qed
  show ?thesis using ec iff dec by (auto split: if_splits)
qed

theorem harness_exit_code_witness:
  "collect_main demo_env = Inr demo_run
   \<and> exit_code demo_run = 0 \<and> decision demo_run = JStr ''DENY''
   \<and> \<not> isl (git_root (git_toplevel demo_env)) \<and> \<not> isl (contract_doc demo_env)"
proof -
  have "decision demo_run = final_decision [(''decision'', JStr ''ALLOW'')] demo_violations"
    by (simp add: demo_run_def Let_def finish_bundle_fields)
  then have "decision demo_run = JStr ''DENY''"
    by (simp add: final_decision_cases demo_violations_def)
  then show ?thesis
    using harness_exit_code [OF demo_collect] demo_git_root demo_contract_doc demo_collect
    by simp
qed






lemma constraint_violations_shape:
  assumes "constraint_violations fnm cfg cps spa tot = Inr viols"
  shows "\<exists>bad hit.
     (if allowed_paths cfg \<noteq> [] then bad_paths fnm (allowed_paths cfg) cps else Inr []) = Inr bad
     \<and> viols =
         (if bad \<noteq> []
          then [violation ''DIFF_OUTSIDE_ALLOWED_PATHS'' ''bad_paths'' (JList (map JStr bad))]
          else [])
         @ (if hit \<noteq> []
            then [violation ''FORBIDDEN_OUTPUT_PRESENT'' ''paths'' (JList (map JStr hit))]
            else [])
         @ (if budget_violations (budgets cfg) (int (length cps)) tot \<noteq> []
            then [violation ''DIFF_BUDGET_EXCEEDED'' ''violations''
                    (JList (budget_violations (budgets cfg) (int (length cps)) tot))]
            else [])"
proof -
  obtain bad where bad:
    "(if allowed_paths cfg \<noteq> [] then bad_paths fnm (allowed_paths cfg) cps else Inr []) = Inr bad"
    using assms unfolding constraint_violations_def bind_def
    by (cases "if allowed_paths cfg \<noteq> [] then bad_paths fnm (allowed_paths cfg) cps else Inr []")
       simp_all
  obtain hit where hit:
    "(if forbidden_outputs cfg \<noteq> []
      then bind (forbidden_hits fnm (forbidden_outputs cfg) spa) (\<lambda>h. Inr (sort (remdups h)))
      else Inr []) = Inr hit"
    using assms bad unfolding constraint_violations_def
    by (cases "if forbidden_outputs cfg \<noteq> []
      then bind (forbidden_hits fnm (forbidden_outputs cfg) spa) (\<lambda>h. Inr (sort (remdups h)))
      else Inr []") (simp_all add: bind_def)
  from assms bad hit show ?thesis
    unfolding constraint_violations_def
    by (intro exI [of _ bad] exI [of _ hit]) (simp add: bind_def Let_def)
qed

lemma bundle_run:
  assumes "git_root (git_toplevel env) = Inr repo_root"
      and "contract_doc env = Inr contract"
      and "collect_main env = Inr r"
  shows "\<exists>cfg meta wt sn df stats st dp.
     contract_fields (repr env) contract = Inr cfg \<and> load_meta env = JObj meta \<and>
     worktree_of env repo_root (packet_id cfg) (dict_get meta ''worktree_path'' JNull) = Inr wt \<and>
     numstat_totals (git_capture env wt [''diff'', ''--numstat'', head_before sn]) = Inr stats \<and>
     constraint_violations (fnmatch env) cfg (changed_paths df) (status_paths_after df)
        (fst (snd stats) + snd (snd stats)) = Inr (violations r) \<and>
     snaps r = Some sn \<and> observed r = Some df \<and>
     total_lines r = fst (snd stats) + snd (snd stats) \<and>
     decision r = final_decision meta (violations r) \<and>
     r = finish_bundle env repo_root cfg meta wt sn df stats (violations r) dp st"
proof -
  from assms have "main_body env repo_root contract = Inr r"
    by (simp add: collect_main_def)
  from main_body_bundle [OF this] show ?thesis
    by (fastforce simp: finish_bundle_fields)
qed

lemma evidence_constraints_field:
  "evidence_violations (build_evidence env rr cfg meta wt sn df stats viols te arts)
     = Inr (JList viols)"
  by (simp add: evidence_violations_def build_evidence_def Let_def dict_get_def bind_def
        split: prod.splits)

lemma evidence_diff_fields:
  "evidence_diff (build_evidence env rr cfg meta wt sn df (tracked, added, deleted) viols te arts)
     ''lines_added'' = Inr (JInt added)"
  "evidence_diff (build_evidence env rr cfg meta wt sn df (tracked, added, deleted) viols te arts)
     ''lines_deleted'' = Inr (JInt deleted)"
  "evidence_diff (build_evidence env rr cfg meta wt sn df (tracked, added, deleted) viols te arts)
     ''tracked_files_changed'' = Inr (JInt (int tracked))"
  "evidence_diff (build_evidence env rr cfg meta wt sn df (tracked, added, deleted) viols te arts)
     ''changed_files'' = Inr (JInt (int (length (changed_paths df))))"
  by (simp_all add: evidence_diff_def build_evidence_def Let_def dict_get_def bind_def)

lemma finish_bundle_evidence_stored:
  "map_of (store (final (finish_bundle env rr cfg meta wt sn df stats viols dp st0))) [''evidence.json'']
     = Some (utf8 (dumps env (evidence (finish_bundle env rr cfg meta wt sn df stats viols dp st0))
                   @ [CHR 0x0A]))"
  by (simp add: finish_bundle_def Let_def write_json_def write_text_def write_bytes_def update_conv')

lemma take_diffs_changed_paths:
  "changed_paths (fst (take_diffs env wt patch sn st))
     = sort (remdups (diff_name_only (fst (take_diffs env wt patch sn st))
                      @ status_paths_after (fst (take_diffs env wt patch sn st))))"
  by (simp add: take_diffs_def Let_def)

lemma bundle_record:
  assumes "git_root (git_toplevel env) = Inr repo_root"
      and "contract_doc env = Inr contract"
      and "collect_main env = Inr r"
  shows "\<exists>cfg meta wt sn df stats te arts.
     contract_fields (repr env) contract = Inr cfg \<and> load_meta env = JObj meta
     \<and> worktree_of env repo_root (packet_id cfg) (dict_get meta ''worktree_path'' JNull) = Inr wt
     \<and> snaps r = Some sn \<and> observed r = Some df
     \<and> numstat_totals (git_capture env wt [''diff'', ''--numstat'', head_before sn]) = Inr stats
     \<and> changed_paths df = sort (remdups (diff_name_only df @ status_paths_after df))
     \<and> evidence r = build_evidence env repo_root cfg meta wt sn df stats (violations r) te arts
     \<and> decision r = final_decision meta (violations r)
     \<and> map_of (store (final r)) [''evidence.json'']
           = Some (utf8 (dumps env (evidence r) @ [CHR 0x0A]))"
proof -
  from assms have "main_body env repo_root contract = Inr r"
    by (simp add: collect_main_def)
  from main_body_bundle [OF this]
  obtain cfg meta wt stats viols t1 t2 where
    c: "contract_fields (repr env) contract = Inr cfg" "load_meta env = JObj meta"
      "worktree_of env repo_root (packet_id cfg) (dict_get meta ''worktree_path'' JNull) = Inr wt"
    and t1: "t1 = take_snapshots env wt \<lparr>store = out_files env, writes = []\<rparr>"
    and t2: "t2 = take_diffs env wt (include_patch cfg) (fst t1) (snd t1)"
    and ns: "numstat_totals (git_capture env wt [''diff'', ''--numstat'', head_before (fst t1)])
               = Inr stats"
    and r: "r = finish_bundle env repo_root cfg meta wt (fst t1) (fst t2) stats viols
           (out_dir_parts env repo_root (out_root cfg) (packet_id cfg)) (snd t2)"
    by blast
  have v: "violations r = viols" by (simp add: r finish_bundle_fields)
  obtain te arts where
    ev: "evidence r = build_evidence env repo_root cfg meta wt (fst t1) (fst t2) stats viols te arts"
    using finish_bundle_evidence r by blast
  have cp: "changed_paths (fst t2) = sort (remdups (diff_name_only (fst t2) @ status_paths_after (fst t2)))"
    unfolding t2 by (rule take_diffs_changed_paths)
  have st: "map_of (store (final r)) [''evidence.json'']
           = Some (utf8 (dumps env (evidence r) @ [CHR 0x0A]))"
    unfolding r by (rule finish_bundle_evidence_stored)
  have f: "snaps r = Some (fst t1)" "observed r = Some (fst t2)"
    "decision r = final_decision meta viols"
    by (simp_all add: r finish_bundle_fields)
  have "contract_fields (repr env) contract = Inr cfg \<and> load_meta env = JObj meta
     \<and> worktree_of env repo_root (packet_id cfg) (dict_get meta ''worktree_path'' JNull) = Inr wt
     \<and> snaps r = Some (fst t1) \<and> observed r = Some (fst t2)
     \<and> numstat_totals (git_capture env wt [''diff'', ''--numstat'', head_before (fst t1)]) = Inr stats
     \<and> changed_paths (fst t2) = sort (remdups (diff_name_only (fst t2) @ status_paths_after (fst t2)))
     \<and> evidence r = build_evidence env repo_root cfg meta wt (fst t1) (fst t2) stats (violations r) te arts
     \<and> decision r = final_decision meta (violations r)
     \<and> map_of (store (final r)) [''evidence.json'']
           = Some (utf8 (dumps env (evidence r) @ [CHR 0x0A]))"
    using c f ns cp ev st by (simp only: v simp_thms)
  then show ?thesis by blast
qed




lemma ascii_digit_char:
  assumes "k < 10"
  shows "is_ascii_digit (char_of (48 + k))" "int (of_char (char_of (48 + k))) - 48 = int k"
  using assms by (simp_all add: is_ascii_digit_def)

lemma digits_of_ok:
  "n < fuel \<Longrightarrow>
     digits_of fuel n \<noteq> [] \<and> list_all is_ascii_digit (digits_of fuel n)
     \<and> foldl (\<lambda>acc c. 10 * acc + (int (of_char c) - 48)) 0 (digits_of fuel n) = int n"
proof (induction fuel arbitrary: n)
  case 0
  then show ?case by simp
next
  case (Suc fuel)
  show ?case
  proof (cases "n < 10")
    case True
    then show ?thesis using ascii_digit_char [of n] by simp
  next
    case False
    then have "n div 10 < fuel" using Suc.prems by simp
    have e: "10 * int (n div 10) + int (n mod 10) = int n"
      by (simp add: zdiv_int zmod_int)
    from Suc.IH [OF \<open>n div 10 < fuel\<close>] False ascii_digit_char [of "n mod 10"] e show ?thesis
      by simp
  qed
qed

lemma ascii_digit_plain:
  "is_ascii_digit c \<Longrightarrow> \<not> is_space c \<and> \<not> is_linebreak c \<and> c \<noteq> CHR 0x09 \<and> is_digit_char c"
  by (auto simp: is_ascii_digit_def is_space_def is_linebreak_def is_digit_char_def Let_def)

lemma numstat_count_plain:
  "numstat_count c \<noteq> []"
  "list_all (\<lambda>ch. \<not> is_space ch \<and> \<not> is_linebreak ch \<and> ch \<noteq> CHR 0x09) (numstat_count c)"
proof -
  show "numstat_count c \<noteq> []"
    using digits_of_ok by (cases c) (simp_all add: numstat_count_def show_int_def)
  show "list_all (\<lambda>ch. \<not> is_space ch \<and> \<not> is_linebreak ch \<and> ch \<noteq> CHR 0x09) (numstat_count c)"
  proof (cases c)
    case None
    then show ?thesis
      by (simp add: numstat_count_def is_space_def is_linebreak_def)
  next
    case (Some n)
    have "list_all is_ascii_digit (digits_of (Suc n) n)" using digits_of_ok [of n "Suc n"] by simp
    then show ?thesis
      using Some ascii_digit_plain
      by (auto simp: numstat_count_def show_int_def list_all_iff)
  qed
qed

lemma numstat_count_value:
  "(if isdigit (numstat_count c) then bind (int_of_digits (numstat_count c)) (\<lambda>n. Inr (x + n))
    else Inr x) = Inr (x + count_lines c)"
proof (cases c)
  case None
  then show ?thesis
    by (simp add: numstat_count_def count_lines_def isdigit_def is_digit_char_def is_ascii_digit_def)
next
  case (Some n)
  from digits_of_ok [of n "Suc n"]
  have d: "digits_of (Suc n) n \<noteq> []" "list_all is_ascii_digit (digits_of (Suc n) n)"
    "foldl (\<lambda>acc c. 10 * acc + (int (of_char c) - 48)) 0 (digits_of (Suc n) n) = int n"
    by simp_all
  have "isdigit (digits_of (Suc n) n)"
    using d(1,2) ascii_digit_plain by (auto simp: isdigit_def list_all_iff)
  moreover have "int_of_digits (digits_of (Suc n) n) = Inr (int n)"
    using d(2,3) by (simp add: int_of_digits_def)
  ultimately show ?thesis
    using Some by (simp add: numstat_count_def show_int_def count_lines_def bind_def)
qed

lemma find_sep_tab:
  "CHR 0x09 \<notin> set a \<Longrightarrow> find_sep [CHR 0x09] (a @ CHR 0x09 # rest) = Some (a, rest)"
  by (induction a) (auto simp: startswith_def)

lemma strip_plain:
  assumes "s \<noteq> []" "\<not> is_space (hd s)" "\<not> is_space (last s)"
  shows "strip s = s"
proof -
  have 1: "dropWhile is_space s = s"
    using assms(1,2) by (cases s) simp_all
  have 2: "dropWhile is_space (rev s) = rev s"
    using assms(1,3) by (cases "rev s") (simp_all add: last_rev [symmetric] hd_rev)
  show ?thesis by (simp add: strip_def 1 2)
qed


lemma split_numstat_row:
  assumes "CHR 0x09 \<notin> set a" "CHR 0x09 \<notin> set d"
  shows "split_max [CHR 0x09] 2 (a @ [CHR 0x09] @ d @ [CHR 0x09] @ p) = [a, d, p]"
  using assms by (simp add: numeral_2_eq_2 find_sep_tab)

lemma numstat_row_strip:
  assumes "row_ok (a, d, p)"
  shows "strip (numstat_row (a, d, p)) = numstat_row (a, d, p)"
proof (rule strip_plain)
  show "numstat_row (a, d, p) \<noteq> []" by (simp add: numstat_row_def)
  have "\<not> is_space (hd (numstat_count a))"
    using numstat_count_plain [of a] by (cases "numstat_count a") simp_all
  then show "\<not> is_space (hd (numstat_row (a, d, p)))"
    using numstat_count_plain(1) [of a] by (simp add: numstat_row_def)
  show "\<not> is_space (last (numstat_row (a, d, p)))"
    using assms by (simp add: numstat_row_def row_ok_def)
qed

lemma numstat_line_row:
  assumes "row_ok (a, d, p)"
  shows "numstat_line (numstat_row (a, d, p)) (t, x, y)
           = Inr (Suc t, x + count_lines a, y + count_lines d)"
proof -
  have nt: "CHR 0x09 \<notin> set (numstat_count a)" "CHR 0x09 \<notin> set (numstat_count d)"
    using numstat_count_plain(2) [of a] numstat_count_plain(2) [of d]
    by (auto simp: list_all_iff)
  have sp: "split_max [CHR 0x09] 2 (numstat_row (a, d, p)) = [numstat_count a, numstat_count d, p]"
    unfolding numstat_row_def using split_numstat_row [OF nt] by simp
  have ne: "numstat_row (a, d, p) \<noteq> []" by (simp add: numstat_row_def)
  show ?thesis
    unfolding numstat_line_def
    by (simp add: numstat_row_strip [OF assms] ne sp Let_def numstat_count_value bind_def)
qed

lemma splitlines_aux_line:
  "list_all (\<lambda>c. \<not> is_linebreak c) l \<Longrightarrow>
     splitlines_aux cur (l @ CHR 0x0A # rest) = (rev cur @ l) # splitlines_aux [] rest"
proof (induction l arbitrary: cur)
  case Nil
  show ?case by (cases rest) (simp_all add: is_linebreak_def)
next
  case (Cons c l)
  then show ?case by simp
qed

lemma numstat_row_no_break:
  assumes "row_ok row"
  shows "list_all (\<lambda>c. \<not> is_linebreak c) (numstat_row row)"
proof -
  obtain a d p where row: "row = (a, d, p)" by (cases row) auto
  have "\<not> is_linebreak (CHR 0x09)" by (simp add: is_linebreak_def)
  then show ?thesis
    using assms numstat_count_plain(2) [of a] numstat_count_plain(2) [of d]
    by (auto simp: row numstat_row_def row_ok_def list_all_iff)
qed

lemma splitlines_numstat_text:
  "list_all row_ok rows \<Longrightarrow> splitlines_aux [] (numstat_text rows) = map numstat_row rows"
proof (induction rows)
  case Nil
  show ?case by (simp add: numstat_text_def)
next
  case (Cons row rows)
  then have ok: "row_ok row" and rest: "splitlines_aux [] (numstat_text rows) = map numstat_row rows"
    by simp_all
  have "numstat_text (row # rows) = numstat_row row @ CHR 0x0A # numstat_text rows"
    by (simp add: numstat_text_def)
  then show ?case
    using splitlines_aux_line [OF numstat_row_no_break [OF ok], of "[]" "numstat_text rows"] rest
    by simp
qed

lemma numstat_loop_rows:
  "list_all row_ok rows \<Longrightarrow>
     numstat_loop (map numstat_row rows) (t, x, y)
       = Inr (t + length rows, x + lines_added rows, y + lines_deleted rows)"
proof (induction rows arbitrary: t x y)
  case Nil
  show ?case by (simp add: lines_added_def lines_deleted_def)
next
  case (Cons row rows)
  obtain a d p where row: "row = (a, d, p)" by (cases row) auto
  from Cons.prems have ok: "row_ok (a, d, p)" and oks: "list_all row_ok rows"
    by (simp_all add: row)
  show ?case
    using Cons.IH [OF oks, of "Suc t" "x + count_lines a" "y + count_lines d"]
    by (simp add: row numstat_line_row [OF ok] lines_added_def lines_deleted_def)
qed

lemma numstat_totals_rows:
  "list_all row_ok rows \<Longrightarrow>
     numstat_totals (numstat_text rows) = Inr (length rows, lines_added rows, lines_deleted rows)"
  using numstat_loop_rows [of rows 0 0 0]
  by (simp add: numstat_totals_def splitlines_def splitlines_numstat_text)

lemma budget_entry_int:
  "budget_entry name obs (JInt m)
     = (if obs > m then [JList [JStr name, JInt obs, JInt m]] else [])"
  by (simp add: budget_entry_def)

text \<open>
  Claim C8. In every run that produces the bundle, the lines added and deleted are the
  sums the loop over \<^verbatim>\<open>git diff --numstat\<close> computes, and \<open>total_lines\<close> is their sum.
  If \<open>budgets.max_changed_lines\<close> is an integer and the total exceeds it, the last
  violation is \<open>DIFF_BUDGET_EXCEEDED\<close> and its list holds
  \<open>["max_changed_lines", total, limit]\<close>; with the limit 10 and 4 lines added plus 8
  deleted the entry is \<open>["max_changed_lines", 12, 10]\<close>. Likewise
  \<open>max_changed_files\<close> is checked against the number of changed paths. A budget
  violation makes the decision \<open>DENY\<close>. The sums are those of the columns: when git
  prints the rows of a numeric diff summary (counts, tab-separated, before the path;
  \<open>-\<close> for a binary file), the lines added and deleted are the sums of the first
  and second column and every row counts as a tracked file. The numbers and the
  violations are recorded in the bundle: \<open>diff.lines_added\<close>, \<open>diff.lines_deleted\<close>
  and \<open>diff.changed_files\<close> of the evidence record hold them, the list under
  \<open>constraints.violations\<close> is the list of violations and ends with the budget
  violation, the record's \<open>decision\<close> is \<open>DENY\<close>, and the record is what
  \<open>evidence.json\<close> holds when the run ends.
\<close>

theorem budget_violation:
  assumes "git_root (git_toplevel env) = Inr repo_root"
      and "contract_doc env = Inr contract"
      and "collect_main env = Inr r"
      and "contract_fields (repr env) contract = Inr cfg"
      and "load_meta env = JObj meta"
      and "worktree_of env repo_root (packet_id cfg) (dict_get meta ''worktree_path'' JNull) = Inr wt"
      and "snaps r = Some sn"
      and "observed r = Some df"
  shows "\<exists>tracked added deleted bv.
       numstat_totals (git_capture env wt [''diff'', ''--numstat'', head_before sn])
         = Inr (tracked, added, deleted)
     \<and> total_lines r = added + deleted
     \<and> bv = budget_violations (budgets cfg) (int (length (changed_paths df))) (added + deleted)
     \<and> (bv \<noteq> [] \<longrightarrow>
           last (violations r) = violation ''DIFF_BUDGET_EXCEEDED'' ''violations'' (JList bv)
           \<and> decision r = JStr ''DENY'')
     \<and> (dict_get (budgets cfg) ''max_changed_lines'' JNull = JInt max_lines
           \<and> added + deleted > max_lines \<longrightarrow>
           JList [JStr ''max_changed_lines'', JInt (added + deleted), JInt max_lines] \<in> set bv)
     \<and> (dict_get (budgets cfg) ''max_changed_lines'' JNull = JInt 10 \<and> added = 4 \<and> deleted = 8 \<longrightarrow>
           JList [JStr ''max_changed_lines'', JInt 12, JInt 10] \<in> set bv)
     \<and> (dict_get (budgets cfg) ''max_changed_files'' JNull = JInt max_files
           \<and> int (length (changed_paths df)) > max_files \<longrightarrow>
           JList [JStr ''max_changed_files'', JInt (int (length (changed_paths df))), JInt max_files]
             \<in> set bv)
     \<and> (git_capture env wt [''diff'', ''--numstat'', head_before sn] = numstat_text rows
           \<and> list_all row_ok rows \<longrightarrow>
           tracked = length rows \<and> added = lines_added rows \<and> deleted = lines_deleted rows)
     \<and> evidence_diff (evidence r) ''lines_added'' = Inr (JInt added)
     \<and> evidence_diff (evidence r) ''lines_deleted'' = Inr (JInt deleted)
     \<and> evidence_diff (evidence r) ''changed_files'' = Inr (JInt (int (length (changed_paths df))))
     \<and> evidence_violations (evidence r) = Inr (JList (violations r))
     \<and> (bv \<noteq> [] \<longrightarrow>
           (\<exists>others. evidence_violations (evidence r)
              = Inr (JList (others @ [violation ''DIFF_BUDGET_EXCEEDED'' ''violations'' (JList bv)])))
           \<and> py_get (evidence r) ''decision'' JNull = Inr (JStr ''DENY''))
     \<and> map_of (store (final r)) [''evidence.json'']
           = Some (utf8 (dumps env (evidence r) @ [CHR 0x0A]))"
proof -
  from bundle_run [OF assms(1-3)] assms(4-8)
  obtain stats where
    ns: "numstat_totals (git_capture env wt [''diff'', ''--numstat'', head_before sn]) = Inr stats"
    and tl: "total_lines r = fst (snd stats) + snd (snd stats)"
    and cv: "constraint_violations (fnmatch env) cfg (changed_paths df) (status_paths_after df)
           (fst (snd stats) + snd (snd stats)) = Inr (violations r)"
    and dec: "decision r = final_decision meta (violations r)"
    by auto
  obtain tracked added deleted where st: "stats = (tracked, added, deleted)"
    by (cases stats) auto
  define bv where "bv = budget_violations (budgets cfg) (int (length (changed_paths df))) (added + deleted)"
  from constraint_violations_shape [OF cv]
  obtain pre where shape: "violations r =
         pre @ (if bv \<noteq> [] then [violation ''DIFF_BUDGET_EXCEEDED'' ''violations'' (JList bv)] else [])"
    unfolding bv_def st by (metis append.assoc fst_conv snd_conv)
  have 1: "bv \<noteq> [] \<Longrightarrow> last (violations r) = violation ''DIFF_BUDGET_EXCEEDED'' ''violations'' (JList bv)"
    by (simp add: shape)
  have 2: "bv \<noteq> [] \<Longrightarrow> decision r = JStr ''DENY''"
    using shape by (simp add: dec final_decision_cases)
  have 3: "dict_get (budgets cfg) ''max_changed_lines'' JNull = JInt max_lines \<Longrightarrow>
      added + deleted > max_lines \<Longrightarrow>
      JList [JStr ''max_changed_lines'', JInt (added + deleted), JInt max_lines] \<in> set bv"
    for max_lines
    by (simp add: bv_def budget_violations_def budget_entry_int)
  have 4: "dict_get (budgets cfg) ''max_changed_files'' JNull = JInt max_files \<Longrightarrow>
      int (length (changed_paths df)) > max_files \<Longrightarrow>
      JList [JStr ''max_changed_files'', JInt (int (length (changed_paths df))), JInt max_files]
        \<in> set bv"
    by (simp add: bv_def budget_violations_def budget_entry_int)
  have 5: "dict_get (budgets cfg) ''max_changed_lines'' JNull = JInt 10 \<Longrightarrow> added = 4 \<Longrightarrow>
      deleted = 8 \<Longrightarrow> JList [JStr ''max_changed_lines'', JInt 12, JInt 10] \<in> set bv"
    using 3 [of 10] by simp
  from bundle_record [OF assms(1-3)] assms(4-8) ns
  obtain te arts where
    ev: "evidence r = build_evidence env repo_root cfg meta wt sn df stats (violations r) te arts"
    and stored: "map_of (store (final r)) [''evidence.json'']
           = Some (utf8 (dumps env (evidence r) @ [CHR 0x0A]))"
    by auto
  have 6: "git_capture env wt [''diff'', ''--numstat'', head_before sn] = numstat_text rows \<Longrightarrow>
      list_all row_ok rows \<Longrightarrow>
      tracked = length rows \<and> added = lines_added rows \<and> deleted = lines_deleted rows"
    using ns numstat_totals_rows [of rows] by (simp add: st)
  have 7: "evidence_diff (evidence r) ''lines_added'' = Inr (JInt added)"
    "evidence_diff (evidence r) ''lines_deleted'' = Inr (JInt deleted)"
    "evidence_diff (evidence r) ''changed_files'' = Inr (JInt (int (length (changed_paths df))))"
    unfolding ev st by (rule evidence_diff_fields)+
  have 8: "evidence_violations (evidence r) = Inr (JList (violations r))"
    by (simp add: ev evidence_constraints_field)
  have 9: "bv \<noteq> [] \<Longrightarrow> \<exists>others. evidence_violations (evidence r)
              = Inr (JList (others @ [violation ''DIFF_BUDGET_EXCEEDED'' ''violations'' (JList bv)]))"
    unfolding 8 by (subst shape) simp
  have 10: "bv \<noteq> [] \<Longrightarrow> py_get (evidence r) ''decision'' JNull = Inr (JStr ''DENY'')"
    using 2 by (simp add: ev dec evidence_decision_field)
  have C: "bv \<noteq> [] \<longrightarrow>
           last (violations r) = violation ''DIFF_BUDGET_EXCEEDED'' ''violations'' (JList bv)
           \<and> decision r = JStr ''DENY''"
    using 1 2 by simp
  have D: "bv \<noteq> [] \<longrightarrow>
           (\<exists>others. evidence_violations (evidence r)
              = Inr (JList (others @ [violation ''DIFF_BUDGET_EXCEEDED'' ''violations'' (JList bv)])))
           \<and> py_get (evidence r) ''decision'' JNull = Inr (JStr ''DENY'')"
    using 9 10 by simp
  show ?thesis
    apply (rule exI [of _ tracked], rule exI [of _ added], rule exI [of _ deleted],
           rule exI [of _ bv])
    using ns tl st C 3 4 5 6 7 8 D stored bv_def by simp
qed

theorem budget_violation_witness:
  "git_root (git_toplevel demo_env) = Inr ''/r''
   \<and> contract_doc demo_env = Inr demo_contract
   \<and> collect_main demo_env = Inr demo_run
   \<and> contract_fields (repr demo_env) demo_contract = Inr demo_cfg
   \<and> dict_get (budgets demo_cfg) ''max_changed_lines'' JNull = JInt 10
   \<and> numstat_totals (git_capture demo_env ''/r'' [''diff'', ''--numstat'', ''abc'']) = Inr (1, 4, 8)
   \<and> total_lines demo_run = 12
   \<and> last (violations demo_run)
       = violation ''DIFF_BUDGET_EXCEEDED'' ''violations''
           (JList [JList [JStr ''max_changed_lines'', JInt 12, JInt 10]])
   \<and> decision demo_run = JStr ''DENY''
   \<and> git_capture demo_env ''/r'' [''diff'', ''--numstat'', ''abc'']
       = numstat_text [(Some (4::nat), Some (8::nat), ''docs/readme.md'')]
   \<and> list_all row_ok [(Some (4::nat), Some (8::nat), ''docs/readme.md'')]
   \<and> lines_added [(Some (4::nat), Some (8::nat), ''docs/readme.md'')] = 4
   \<and> lines_deleted [(Some (4::nat), Some (8::nat), ''docs/readme.md'')] = 8
   \<and> evidence_diff (evidence demo_run) ''lines_added'' = Inr (JInt 4)
   \<and> evidence_diff (evidence demo_run) ''lines_deleted'' = Inr (JInt 8)
   \<and> evidence_violations (evidence demo_run) = Inr (JList demo_violations)
   \<and> py_get (evidence demo_run) ''decision'' JNull = Inr (JStr ''DENY'')"
proof -
  have gc: "git_capture demo_env ''/r'' [''diff'', ''--numstat'', ''abc'']
       = numstat_text [(Some (4::nat), Some (8::nat), ''docs/readme.md'')]"
    by code_simp
  have rk: "list_all row_ok [(Some (4::nat), Some (8::nat), ''docs/readme.md'')]"
    by (simp add: row_ok_def is_space_def is_linebreak_def)
  have la: "lines_added [(Some (4::nat), Some (8::nat), ''docs/readme.md'')] = 4"
    "lines_deleted [(Some (4::nat), Some (8::nat), ''docs/readme.md'')] = 8"
    by (simp_all add: lines_added_def lines_deleted_def count_lines_def)
  have vs: "violations demo_run = demo_violations"
    by (simp add: demo_run_def Let_def finish_bundle_fields)
  have dv: "demo_violations \<noteq> []" by (simp add: demo_violations_def)
  define df where "df = fst (take_diffs demo_env ''/r'' False demo_snaps
      (snd (take_snapshots demo_env ''/r'' \<lparr>store = out_files demo_env, writes = []\<rparr>)))"
  have ob: "observed demo_run = Some df" "snaps demo_run = Some demo_snaps"
    by (simp_all add: demo_run_def Let_def finish_bundle_fields df_def)
  have cp: "changed_paths df = [''docs/readme.md'']"
    by (simp add: df_def demo_changed)
  have wt: "worktree_of demo_env ''/r'' (packet_id demo_cfg)
      (dict_get [(''decision'', JStr ''ALLOW'')] ''worktree_path'' JNull) = Inr ''/r''"
    using demo_worktree by (simp add: demo_cfg_def)
  have bud: "dict_get (budgets demo_cfg) ''max_changed_lines'' JNull = JInt 10"
    "budget_violations (budgets demo_cfg) 1 12 = [JList [JStr ''max_changed_lines'', JInt 12, JInt 10]]"
    by (simp_all add: demo_cfg_def dict_get_def budget_violations_def budget_entry_def)
  have hb: "head_before demo_snaps = ''abc''" by (simp add: demo_snaps_def)
  show ?thesis
    using budget_violation [OF demo_git_root demo_contract_doc demo_collect demo_fields
        demo_meta wt ob(2) ob(1),
        where rows = "[(Some (4::nat), Some (8::nat), ''docs/readme.md'')]"]
      cp bud hb demo_numstat gc rk la vs dv
      demo_git_root demo_contract_doc demo_collect demo_fields
    by auto
qed

lemma write_bytes_store:
  "map_of (store (write_bytes q b st)) p = (if p = q then Some b else map_of (store st) p)"
  by (simp add: write_bytes_def update_conv')


lemma write_bytes_writes_list:
  "writes (write_bytes q b st) = writes st @ [(q, b)]"
  by (simp add: write_bytes_def)


















lemma finish_bundle_writes:
  "\<exists>md ms. writes (final (finish_bundle env rr cfg meta wt sn df stats viols dp st0)) =
     writes st0 @
     [([''evidence.json''],
         utf8 (dumps env (first_evidence (finish_bundle env rr cfg meta wt sn df stats viols dp st0))
               @ [CHR 0x0A])),
      ([''evidence.md''], md),
      ([''manifest.json''],
         utf8 (dumps env (manifest (finish_bundle env rr cfg meta wt sn df stats viols dp st0))
               @ [CHR 0x0A])),
      ([''manifest.sha256''], ms),
      ([''evidence.json''],
         utf8 (dumps env (evidence (finish_bundle env rr cfg meta wt sn df stats viols dp st0))
               @ [CHR 0x0A]))]"
  by (simp add: finish_bundle_def Let_def write_json_def write_text_def write_bytes_writes_list)

lemma finish_bundle_final_evidence:
  "map_of (store (final (finish_bundle env rr cfg meta wt sn df stats viols dp st0))) [''evidence.json'']
     = Some (utf8 (dumps env (evidence (finish_bundle env rr cfg meta wt sn df stats viols dp st0))
                   @ [CHR 0x0A]))"
  by (simp add: finish_bundle_def Let_def write_json_def write_text_def write_bytes_store)

lemma finish_bundle_manifest:
  "\<exists>md. manifest (finish_bundle env rr cfg meta wt sn df stats viols dp st0) =
     build_manifest env dp
       (write_bytes [''evidence.md''] md
          (write_bytes [''evidence.json'']
             (utf8 (dumps env (first_evidence (finish_bundle env rr cfg meta wt sn df stats viols dp st0))
                    @ [CHR 0x0A])) st0))"
  by (simp add: finish_bundle_def Let_def write_json_def write_text_def) blast

lemma finish_bundle_artifacts:
  "\<exists>te raws. first_evidence (finish_bundle env rr cfg meta wt sn df stats viols dp st0)
       = build_evidence env rr cfg meta wt sn df stats viols te (JObj [])
     \<and> evidence (finish_bundle env rr cfg meta wt sn df stats viols dp st0)
       = build_evidence env rr cfg meta wt sn df stats viols te
           (JObj [(''raw'', JList raws), (''manifest'', JStr ''manifest.json''),
                  (''manifest_sha256'', JStr ''manifest.sha256'')])"
  by (simp add: finish_bundle_def Let_def artifacts_of_def) blast

lemma as_posix_slash: "CHR ''/'' \<in> set (as_posix (x # y # xs))"
  by simp

lemma as_posix_evidence_json:
  "as_posix p = ''evidence.json'' \<longleftrightarrow> p = [''evidence.json'']"
proof
  assume a: "as_posix p = ''evidence.json''"
  show "p = [''evidence.json'']"
  proof (cases p)
    case Nil
    with a show ?thesis by simp
  next
    case (Cons x xs)
    show ?thesis
    proof (cases xs)
      case Nil
      with Cons a show ?thesis by simp
    next
      case (Cons y ys)
      with \<open>p = x # xs\<close> a as_posix_slash [of x y ys] show ?thesis by simp
    qed
  qed
qed simp

lemma manifest_paths_set:
  "set (manifest_paths dp st) =
     {p \<in> fst ` set (store st). p \<noteq> [] \<and> ''.git'' \<notin> set (dp @ p)
         \<and> as_posix p \<noteq> ''manifest.json'' \<and> as_posix p \<noteq> ''manifest.sha256''}"
  by (auto simp: manifest_paths_def list_files_def)


text \<open>
  Claim C10. In every run that produces the bundle, the last five writes are, in this
  order: \<open>evidence.json\<close> (the record with an empty \<open>artifacts\<close> object),
  \<open>evidence.md\<close>, \<open>manifest.json\<close>, \<open>manifest.sha256\<close>, and \<open>evidence.json\<close> again,
  now with the \<open>artifacts\<close> object filled in; the file left on disk is the second
  one, and the two records differ. The manifest is built between the two writes, so
  any entry it has for \<open>evidence.json\<close> holds the hash and the size of the bytes
  written first; and it has that entry unless a component of the output directory is
  \<open>.git\<close>, in which case \<^verbatim>\<open>list_files\<close> skips every file.
\<close>

theorem manifest_records_intermediate_evidence:
  assumes "git_root (git_toplevel env) = Inr repo_root"
      and "contract_doc env = Inr contract"
      and "collect_main env = Inr r"
      and "c0 = utf8 (dumps env (first_evidence r) @ [CHR 0x0A])"
      and "c1 = utf8 (dumps env (evidence r) @ [CHR 0x0A])"
      and "entry0 = JObj [(''path'', JStr ''evidence.json''),
                          (''sha256'', JStr (sha256_hex env c0)),
                          (''size'', JInt (int (length c0)))]"
  shows "(\<exists>ws md ms. writes (final r) =
            ws @ [([''evidence.json''], c0), ([''evidence.md''], md),
                  ([''manifest.json''], utf8 (dumps env (manifest r) @ [CHR 0x0A])),
                  ([''manifest.sha256''], ms), ([''evidence.json''], c1)])
     \<and> map_of (store (final r)) [''evidence.json''] = Some c1
     \<and> py_get (first_evidence r) ''artifacts'' JNull = Inr (JObj [])
     \<and> (\<exists>raws. py_get (evidence r) ''artifacts'' JNull =
            Inr (JObj [(''raw'', JList raws), (''manifest'', JStr ''manifest.json''),
                       (''manifest_sha256'', JStr ''manifest.sha256'')]))
     \<and> first_evidence r \<noteq> evidence r
     \<and> (\<exists>files. py_get (manifest r) ''files'' JNull = Inr (JList files)
            \<and> (''.git'' \<notin> set (out_dir r) \<longrightarrow> entry0 \<in> set files)
            \<and> (\<forall>e \<in> set files.
                  py_get e ''path'' JNull = Inr (JStr ''evidence.json'') \<longrightarrow> e = entry0))"
proof -
  from bundle_run [OF assms(1-3)]
  obtain cfg meta wt sn df stats st dp where
    r: "r = finish_bundle env repo_root cfg meta wt sn df stats (violations r) dp st"
    by blast
  have dp: "out_dir r = dp"
    by (subst r) (simp add: finish_bundle_fields)
  from finish_bundle_writes [of env repo_root cfg meta wt sn df stats "violations r" dp st]
  have W: "\<exists>ws md ms. writes (final r) =
            ws @ [([''evidence.json''], c0), ([''evidence.md''], md),
                  ([''manifest.json''], utf8 (dumps env (manifest r) @ [CHR 0x0A])),
                  ([''manifest.sha256''], ms), ([''evidence.json''], c1)]"
    unfolding r [symmetric] assms(4,5) by blast
  have S: "map_of (store (final r)) [''evidence.json''] = Some c1"
    using finish_bundle_final_evidence [of env repo_root cfg meta wt sn df stats "violations r" dp st]
    unfolding r [symmetric] assms(5) .
  from finish_bundle_artifacts [of env repo_root cfg meta wt sn df stats "violations r" dp st]
  obtain te raws where
    e0: "first_evidence r = build_evidence env repo_root cfg meta wt sn df stats (violations r) te (JObj [])"
    and e1: "evidence r = build_evidence env repo_root cfg meta wt sn df stats (violations r) te
           (JObj [(''raw'', JList raws), (''manifest'', JStr ''manifest.json''),
                  (''manifest_sha256'', JStr ''manifest.sha256'')])"
    unfolding r [symmetric] by blast
  have A0: "py_get (first_evidence r) ''artifacts'' JNull = Inr (JObj [])"
    by (simp add: e0 evidence_decision_field)
  have A1: "py_get (evidence r) ''artifacts'' JNull =
            Inr (JObj [(''raw'', JList raws), (''manifest'', JStr ''manifest.json''),
                       (''manifest_sha256'', JStr ''manifest.sha256'')])"
    by (simp add: e1 evidence_decision_field)
  have D: "first_evidence r \<noteq> evidence r"
    using A0 A1 by auto
  from finish_bundle_manifest [of env repo_root cfg meta wt sn df stats "violations r" dp st]
  obtain md where
    man: "manifest r = build_manifest env dp
            (write_bytes [''evidence.md''] md (write_bytes [''evidence.json''] c0 st))"
    unfolding r [symmetric] assms(4) by blast
  let ?st2 = "write_bytes [''evidence.md''] md (write_bytes [''evidence.json''] c0 st)"
  let ?files = "map (manifest_entry env ?st2) (manifest_paths dp ?st2)"
  have F: "py_get (manifest r) ''files'' JNull = Inr (JList ?files)"
    by (simp add: man build_manifest_def dict_get_def)
  have rb: "read_bytes ?st2 [''evidence.json''] = c0"
    by (simp add: read_bytes_def write_bytes_store)
  have ent: "manifest_entry env ?st2 [''evidence.json''] = entry0"
    by (simp add: manifest_entry_def rb assms(6))
  have key: "[''evidence.json''] \<in> fst ` set (store ?st2)"
  proof -
    have "map_of (store ?st2) [''evidence.json''] = Some c0"
      by (simp add: write_bytes_store)
    then show ?thesis
      by (metis domI dom_map_of_conv_image_fst)
  qed
  have mem: "[''evidence.json''] \<in> set (manifest_paths dp ?st2)"
    if "''.git'' \<notin> set (out_dir r)"
    using key that by (simp add: manifest_paths_set dp)
  have M: "entry0 \<in> set ?files" if "''.git'' \<notin> set (out_dir r)"
    using mem [OF that] ent by force
  have U: "e = entry0" if "e \<in> set ?files" "py_get e ''path'' JNull = Inr (JStr ''evidence.json'')"
    for e
  proof -
    from that(1) obtain p where "e = manifest_entry env ?st2 p" by auto
    with that(2) have "as_posix p = ''evidence.json''"
      by (simp add: manifest_entry_def dict_get_def)
    then have "p = [''evidence.json'']" by (simp add: as_posix_evidence_json)
    with \<open>e = manifest_entry env ?st2 p\<close> ent show ?thesis by simp
  qed
  show ?thesis
    using W S A0 A1 D F M U by blast
qed

lemma demo_dumps_artifacts:
  "demo_dumps (build_evidence env rr cfg meta wt sn df stats viols te (JObj kvs))
     = demo_dumps (build_evidence env rr cfg meta wt sn df stats viols te (JObj []))
       @ concat (map fst kvs)"
  by (simp add: build_evidence_def demo_dumps_def Let_def split: prod.splits)

lemma utf8_append: "utf8 (a @ b) = utf8 a @ utf8 b"
  by (simp add: utf8_def)

theorem manifest_records_intermediate_evidence_witness:
  "git_root (git_toplevel demo_env) = Inr ''/r''
   \<and> contract_doc demo_env = Inr demo_contract
   \<and> collect_main demo_env = Inr demo_run
   \<and> ''.git'' \<notin> set (out_dir demo_run)
   \<and> map_of (store (final demo_run)) [''evidence.json'']
        = Some (utf8 (dumps demo_env (evidence demo_run) @ [CHR 0x0A]))
   \<and> length (utf8 (dumps demo_env (evidence demo_run) @ [CHR 0x0A]))
        = length (utf8 (dumps demo_env (first_evidence demo_run) @ [CHR 0x0A])) + 26
   \<and> (\<exists>files. py_get (manifest demo_run) ''files'' JNull = Inr (JList files)
         \<and> JObj [(''path'', JStr ''evidence.json''),
                  (''sha256'', JStr (sha256_hex demo_env
                      (utf8 (dumps demo_env (first_evidence demo_run) @ [CHR 0x0A])))),
                  (''size'', JInt (int (length
                      (utf8 (dumps demo_env (first_evidence demo_run) @ [CHR 0x0A])))))]
             \<in> set files)"
proof -
  have od: "''.git'' \<notin> set (out_dir demo_run)"
    by (simp add: demo_run_def Let_def finish_bundle_fields)
  have dd: "dumps demo_env = demo_dumps" by (simp add: demo_env_def)
  obtain te raws t1 t2 where
    e0: "first_evidence demo_run = build_evidence demo_env ''/r'' demo_cfg
           [(''decision'', JStr ''ALLOW'')] ''/r'' demo_snaps t1 (1, 4, 8) demo_violations te (JObj [])"
    and e1: "evidence demo_run = build_evidence demo_env ''/r'' demo_cfg
           [(''decision'', JStr ''ALLOW'')] ''/r'' demo_snaps t1 (1, 4, 8) demo_violations te
           (JObj [(''raw'', JList raws), (''manifest'', JStr ''manifest.json''),
                  (''manifest_sha256'', JStr ''manifest.sha256'')])"
    unfolding demo_run_def Let_def using finish_bundle_artifacts by blast
  have len: "length (utf8 (dumps demo_env (evidence demo_run) @ [CHR 0x0A]))
        = length (utf8 (dumps demo_env (first_evidence demo_run) @ [CHR 0x0A])) + 26"
    unfolding dd e0 e1 demo_dumps_artifacts [of _ _ _ _ _ _ _ _ _ _ "[(''raw'', JList raws), (''manifest'', JStr ''manifest.json''), (''manifest_sha256'', JStr ''manifest.sha256'')]"]
    by (simp add: utf8_append) (simp add: utf8_def)
  show ?thesis
    using manifest_records_intermediate_evidence
            [OF demo_git_root demo_contract_doc demo_collect refl refl refl]
      od len demo_git_root demo_contract_doc demo_collect
    by blast
qed

section \<open>Properties of the admission gate\<close>

lemma py_get_not_dict: "\<not> is_dict v \<Longrightarrow> py_get v k d = Inl AttributeError"
  by (cases v) (simp_all add: is_dict_def)

lemma py_get_dict: "is_dict v \<Longrightarrow> \<exists>x. py_get v k d = Inr x"
  by (cases v) (simp_all add: is_dict_def)

lemma gate_contract_fields_dict:
  "gate_contract_fields rp (JObj kvs) = Inl AttributeError
     \<longleftrightarrow> \<not> is_dict (py_or (dict_get kvs ''worktree_policy'' JNull) (JObj []))"
  "is_dict (py_or (dict_get kvs ''worktree_policy'' JNull) (JObj []))
     \<Longrightarrow> \<exists>cfg. gate_contract_fields rp (JObj kvs) = Inr cfg"
  "\<not> is_dict (py_or (dict_get kvs ''worktree_policy'' JNull) (JObj []))
     \<Longrightarrow> gate_contract_fields rp (JObj kvs) = Inl AttributeError"
proof -
  show 3: "gate_contract_fields rp (JObj kvs) = Inl AttributeError"
    if "\<not> is_dict (py_or (dict_get kvs ''worktree_policy'' JNull) (JObj []))"
    using py_get_not_dict [OF that] by (simp add: gate_contract_fields_def bind_def)
  show 2: "\<exists>cfg. gate_contract_fields rp (JObj kvs) = Inr cfg"
    if "is_dict (py_or (dict_get kvs ''worktree_policy'' JNull) (JObj []))"
  proof -
    from that obtain pk where "py_or (dict_get kvs ''worktree_policy'' JNull) (JObj []) = JObj pk"
      by (cases "py_or (dict_get kvs ''worktree_policy'' JNull) (JObj [])") (simp_all add: is_dict_def)
    then show ?thesis by (simp add: gate_contract_fields_def bind_def)
  qed
  show "gate_contract_fields rp (JObj kvs) = Inl AttributeError
     \<longleftrightarrow> \<not> is_dict (py_or (dict_get kvs ''worktree_policy'' JNull) (JObj []))"
    using 2 3 by (metis Inl_Inr_False)
qed

lemma gate_contract_fields_not_dict:
  "\<not> is_dict c \<Longrightarrow> gate_contract_fields rp c = Inl AttributeError"
  by (simp add: gate_contract_fields_def bind_def py_get_not_dict)

lemma default_evidence_path_cases:
  "default_evidence_path env JNull \<noteq> Inl e"
  "default_evidence_path env (JObj []) \<noteq> Inl e"
  "kvs \<noteq> [] \<Longrightarrow> is_dict (py_or (dict_get kvs ''evidence'' JNull) (JObj []))
     \<Longrightarrow> default_evidence_path env (JObj kvs) \<noteq> Inl e"
  "kvs \<noteq> [] \<Longrightarrow> \<not> is_dict (py_or (dict_get kvs ''evidence'' JNull) (JObj []))
     \<Longrightarrow> default_evidence_path env (JObj kvs) = Inl AttributeError"
  "\<not> is_dict c \<Longrightarrow> c \<noteq> JNull \<Longrightarrow> truthy c \<Longrightarrow> default_evidence_path env c = Inl AttributeError"
proof -
  show "default_evidence_path env JNull \<noteq> Inl e" "default_evidence_path env (JObj []) \<noteq> Inl e"
    by (simp_all add: default_evidence_path_def)
  show "default_evidence_path env (JObj kvs) \<noteq> Inl e"
    if "kvs \<noteq> []" "is_dict (py_or (dict_get kvs ''evidence'' JNull) (JObj []))"
  proof -
    from that(2) obtain ek where "py_or (dict_get kvs ''evidence'' JNull) (JObj []) = JObj ek"
      by (cases "py_or (dict_get kvs ''evidence'' JNull) (JObj [])") (simp_all add: is_dict_def)
    with that(1) show ?thesis by (simp add: default_evidence_path_def bind_def)
  qed
  show "default_evidence_path env (JObj kvs) = Inl AttributeError"
    if "kvs \<noteq> []" "\<not> is_dict (py_or (dict_get kvs ''evidence'' JNull) (JObj []))"
    using that py_get_not_dict [OF that(2)] by (simp add: default_evidence_path_def bind_def)
  show "default_evidence_path env c = Inl AttributeError"
    if "\<not> is_dict c" "c \<noteq> JNull" "truthy c"
    using that by (simp add: default_evidence_path_def bind_def py_get_not_dict)
qed

lemma g0_main_result:
  assumes "evidence_path_of env (fst (safe_read_json env)) = Inr ep"
      and "contract_decision env (fst (safe_read_json env)) (snd (safe_read_json env)) = Inr cd"
  shows "\<exists>cx s. g0_main env =
           Inr \<lparr>g_exit_code = (if allow (gs_decision s) then 0 else 2), g_evidence_path = ep,
                g_evidence = make_evidence env cx s\<rparr>"
  using assms by (simp add: g0_main_def Let_def bind_def) blast

lemma g0_main_error:
  "evidence_path_of env (fst (safe_read_json env)) = Inl e \<Longrightarrow> g0_main env = Inl e"
  "evidence_path_of env (fst (safe_read_json env)) = Inr ep \<Longrightarrow>
   contract_decision env (fst (safe_read_json env)) (snd (safe_read_json env)) = Inl e \<Longrightarrow>
   g0_main env = Inl e"
  by (simp_all add: g0_main_def Let_def bind_def)

lemma make_evidence_decision:
  "ev_decision (make_evidence env cx s) = (if allow (gs_decision s) then ''ALLOW'' else ''DENY'')"
  by (simp add: make_evidence_def)

text \<open>
  Claim C2 as stated fails: a contract file that holds the JSON list \<open>[1]\<close> is read
  and decoded without error, and the gate then leaves with an uncaught AttributeError
  (from \<^verbatim>\<open>contract.get\<close> in \<^verbatim>\<open>default_evidence_path\<close>) before any evidence is
  written.
\<close>

theorem gate_unshaped_contract_counterexample:
  "contract_exists (reentry_env (JList [JInt 1]))
   \<and> contract_read (reentry_env (JList [JInt 1])) = Inr (JList [JInt 1])
   \<and> g0_main (reentry_env (JList [JInt 1])) = Inl AttributeError"
proof -
  have "safe_read_json (reentry_env (JList [JInt 1])) = (JList [JInt 1], None)"
    by (simp add: safe_read_json_def reentry_env_def)
  then have "evidence_path_of (reentry_env (JList [JInt 1]))
               (fst (safe_read_json (reentry_env (JList [JInt 1])))) = Inl AttributeError"
    by (simp add: evidence_path_of_def reentry_env_def default_evidence_path_def bind_def)
  then show ?thesis
    by (simp add: g0_main_error(1)) (simp add: reentry_env_def)
qed

text \<open>
  Claim C2, amended. Whenever the decoded contract is \<^verbatim>\<open>None\<close> (file missing,
  unreadable, not JSON, or \<^verbatim>\<open>null\<close>) or a JSON object whose \<^verbatim>\<open>worktree_policy\<close> and
  (where the default evidence path is used) \<^verbatim>\<open>evidence\<close> members are objects or falsy,
  the gate returns, whichever check denies: it writes the evidence record, whose
  decision is \<open>ALLOW\<close> or \<open>DENY\<close>, and the exit code is 0 exactly on \<open>ALLOW\<close> and
  2 exactly on \<open>DENY\<close>. For every other decoded contract the gate raises
  AttributeError and writes nothing. (Failures of the file system and of process
  creation are outside the model; the gate has no handler for them either.)
\<close>

theorem gate_writes_evidence:
  "(gate_contract_ok env \<longrightarrow>
      (\<exists>r. g0_main env = Inr r
          \<and> (ev_decision (g_evidence r) = ''ALLOW'' \<or> ev_decision (g_evidence r) = ''DENY'')
          \<and> (g_exit_code r = 0 \<longleftrightarrow> ev_decision (g_evidence r) = ''ALLOW'')
          \<and> (g_exit_code r = 2 \<longleftrightarrow> ev_decision (g_evidence r) = ''DENY'')))
   \<and> (\<not> gate_contract_ok env \<longrightarrow> g0_main env = Inl AttributeError)"
proof -
  let ?c = "fst (safe_read_json env)"
  let ?err = "snd (safe_read_json env)"
  have ok_run: "\<exists>r. g0_main env = Inr r
          \<and> (ev_decision (g_evidence r) = ''ALLOW'' \<or> ev_decision (g_evidence r) = ''DENY'')
          \<and> (g_exit_code r = 0 \<longleftrightarrow> ev_decision (g_evidence r) = ''ALLOW'')
          \<and> (g_exit_code r = 2 \<longleftrightarrow> ev_decision (g_evidence r) = ''DENY'')"
    if ep: "evidence_path_of env ?c = Inr ep" and cd: "contract_decision env ?c ?err = Inr cd"
    for ep cd
  proof -
    from g0_main_result [OF ep cd] obtain cx s where
      "g0_main env = Inr \<lparr>g_exit_code = (if allow (gs_decision s) then 0 else 2),
          g_evidence_path = ep, g_evidence = make_evidence env cx s\<rparr>"
      by blast
    then show ?thesis by (simp add: make_evidence_decision)
  qed
  have not_dict: "g0_main env = Inl AttributeError" if nd: "\<not> is_dict ?c" "?c \<noteq> JNull"
  proof -
    have cdb: "contract_decision env ?c ?err = Inl AttributeError"
      using nd by (simp add: contract_decision_def bind_def gate_contract_fields_not_dict)
    show ?thesis
    proof (cases "evidence_path_of env ?c")
      case (Inl e)
      have "default_evidence_path env ?c = Inl e \<Longrightarrow> e = AttributeError"
        using default_evidence_path_cases(5) [OF nd]
        by (cases "truthy ?c") (auto simp: default_evidence_path_def)
      with Inl have "e = AttributeError"
        by (auto simp: evidence_path_of_def split: option.splits if_splits)
      with Inl g0_main_error(1) show ?thesis by simp
    next
      case (Inr ep)
      from g0_main_error(2) [OF Inr cdb] show ?thesis .
    qed
  qed
  show ?thesis
  proof (cases ?c)
    case JNull
    then have ok: "gate_contract_ok env" by (simp add: gate_contract_ok_def)
    have "\<exists>ep. evidence_path_of env ?c = Inr ep"
      using JNull default_evidence_path_cases(1)
      by (cases "default_evidence_path env JNull")
         (auto simp: evidence_path_of_def split: option.splits)
    moreover have "\<exists>cd. contract_decision env ?c ?err = Inr cd"
      using JNull by (simp add: contract_decision_def)
    ultimately show ?thesis using ok ok_run by blast
  next
    case (JObj kvs)
    let ?pol = "is_dict (py_or (dict_get kvs ''worktree_policy'' JNull) (JObj []))"
    let ?ev = "is_dict (py_or (dict_get kvs ''evidence'' JNull) (JObj []))"
    have okdef: "gate_contract_ok env \<longleftrightarrow> ?pol \<and> (evidence_out_given env \<or> kvs = [] \<or> ?ev)"
      using JObj by (simp add: gate_contract_ok_def)
    have path_ok: "\<exists>ep. evidence_path_of env ?c = Inr ep"
      if "evidence_out_given env \<or> kvs = [] \<or> ?ev"
    proof (cases "evidence_out_given env")
      case True
      then show ?thesis
        by (auto simp: evidence_path_of_def evidence_out_given_def split: option.splits)
    next
      case False
      with that have k: "kvs = [] \<or> ?ev" by simp
      have "\<exists>ep. default_evidence_path env (JObj kvs) = Inr ep"
        using k default_evidence_path_cases(2,3)
        by (cases "default_evidence_path env (JObj kvs)"; cases "kvs = []") auto
      with False JObj show ?thesis
        by (auto simp: evidence_path_of_def evidence_out_given_def split: option.splits)
    qed
    have path_bad: "evidence_path_of env ?c = Inl AttributeError"
      if "\<not> (evidence_out_given env \<or> kvs = [] \<or> ?ev)"
      using that JObj default_evidence_path_cases(4)
      by (auto simp: evidence_path_of_def evidence_out_given_def split: option.splits)
    have cd_ok: "\<exists>cd. contract_decision env ?c ?err = Inr cd" if ?pol
      using gate_contract_fields_dict(2) [OF that, of "g_repr env"] JObj
      by (auto simp: contract_decision_def bind_def)
    have cd_bad: "contract_decision env ?c ?err = Inl AttributeError" if "\<not> ?pol"
      using gate_contract_fields_dict(3) [OF that, of "g_repr env"] JObj
      by (simp add: contract_decision_def bind_def)
    show ?thesis
    proof (cases "gate_contract_ok env")
      case True
      with okdef path_ok cd_ok ok_run show ?thesis by blast
    next
      case False
      show ?thesis
      proof (cases "evidence_out_given env \<or> kvs = [] \<or> ?ev")
        case True
        with False okdef have "\<not> ?pol" by simp
        from path_ok [OF True] obtain ep where "evidence_path_of env ?c = Inr ep" by blast
        from g0_main_error(2) [OF this cd_bad [OF \<open>\<not> ?pol\<close>]] False show ?thesis by simp
      next
        case F2: False
        from g0_main_error(1) [OF path_bad [OF F2]] False show ?thesis by simp
      qed
    qed
  next
    case (JBool b)
    then show ?thesis using not_dict by (simp add: is_dict_def gate_contract_ok_def)
  next
    case (JInt i)
    then show ?thesis using not_dict by (simp add: is_dict_def gate_contract_ok_def)
  next
    case (JFloat x)
    then show ?thesis using not_dict by (simp add: is_dict_def gate_contract_ok_def)
  next
    case (JStr x)
    then show ?thesis using not_dict by (simp add: is_dict_def gate_contract_ok_def)
  next
    case (JList x)
    then show ?thesis using not_dict by (simp add: is_dict_def gate_contract_ok_def)
  qed
qed

theorem gate_writes_evidence_witness:
  "gate_contract_ok (reentry_env resume_contract)
   \<and> \<not> isl (g0_main (reentry_env resume_contract))
   \<and> (g_exit_code (projr (g0_main (reentry_env resume_contract))) = 0
        \<longleftrightarrow> ev_decision (g_evidence (projr (g0_main (reentry_env resume_contract)))) = ''ALLOW'')
   \<and> \<not> gate_contract_ok (reentry_env (JList [JInt 1]))
   \<and> g0_main (reentry_env (JList [JInt 1])) = Inl AttributeError"
proof -
  have ok: "gate_contract_ok (reentry_env resume_contract)"
    by (simp add: gate_contract_ok_def safe_read_json_def reentry_env_def resume_contract_def
          dict_get_def py_or_def is_dict_def)
  have bad: "\<not> gate_contract_ok (reentry_env (JList [JInt 1]))"
    by (simp add: gate_contract_ok_def safe_read_json_def reentry_env_def)
  show ?thesis
    using gate_writes_evidence [of "reentry_env resume_contract"]
      gate_writes_evidence [of "reentry_env (JList [JInt 1])"] ok bad
    by auto
qed

lemma denied_checks_skip:
  assumes "\<not> allow (gs_decision s)"
  shows "check_deny_if_exists cx s = s" "check_registered env cx s = s"
    "check_branch env cx s = s" "create_worktree env cx s = s"
    "check_op_in_progress env cx s = s" "check_ancestry env cx s = s" "push_probe env cx s = s"
  using assms
  by (simp_all add: check_deny_if_exists_def check_registered_def check_branch_def
        create_worktree_def check_op_in_progress_def check_ancestry_def push_probe_def
        split: option.splits)

lemma deny_not_allow: "\<not> allow (deny d code msg)"
  by (simp add: deny_def)

lemma gate_checks_collision:
  assumes "cx_wt_path cx = Some p" "cx_wt_exists cx" "gc_deny_if_exists (cx_cfg cx)" "allow d"
  shows "gate_checks env cx d =
     (gate_state_init d)\<lparr>gs_decision := deny d ''WORKTREE_COLLISION''
        ''worktree exists and deny_if_worktree_exists=true''\<rparr>"
proof -
  let ?s = "(gate_state_init d)\<lparr>gs_decision := deny d ''WORKTREE_COLLISION''
        ''worktree exists and deny_if_worktree_exists=true''\<rparr>"
  have 1: "check_deny_if_exists cx (gate_state_init d) = ?s"
    using assms by (simp add: check_deny_if_exists_def gate_state_init_def)
  have na: "\<not> allow (gs_decision ?s)" by (simp add: deny_not_allow)
  show ?thesis
    unfolding gate_checks_def 1
    by (simp only: denied_checks_skip [OF na])
qed

lemma gate_checks_reuse_prefix:
  assumes "cx_wt_path cx = Some p" "cx_wt_exists cx" "\<not> gc_deny_if_exists (cx_cfg cx)" "allow d"
      and "g_resolve env p \<in> set (map (\<lambda>e. g_resolve env (fst e)) (cx_wt_list cx))"
      and "worktree_branch (registry_entry env (cx_wt_list cx) p) = Some (gc_branch (cx_cfg cx))"
      and "gc_branch (cx_cfg cx) \<noteq> []"
  shows "create_worktree env cx (check_branch env cx (check_registered env cx
           (check_deny_if_exists cx (gate_state_init d))))
         = (gate_state_init d)\<lparr>gs_reused := True\<rparr>"
  using assms
  by (simp add: check_deny_if_exists_def check_registered_def check_branch_def
        create_worktree_def gate_state_init_def Let_def)

lemma later_checks_frame:
  "gs_reused (check_op_in_progress env cx s) = gs_reused s"
  "gs_created (check_op_in_progress env cx s) = gs_created s"
  "gs_collision (check_op_in_progress env cx s) = gs_collision s"
  "gs_reused (check_ancestry env cx s) = gs_reused s"
  "gs_created (check_ancestry env cx s) = gs_created s"
  "gs_collision (check_ancestry env cx s) = gs_collision s"
  "gs_reused (push_probe env cx s) = gs_reused s"
  "gs_created (push_probe env cx s) = gs_created s"
  "gs_collision (push_probe env cx s) = gs_collision s"
  by (simp_all add: check_op_in_progress_def check_ancestry_def push_probe_def Let_def
        split: option.splits prod.splits)

lemma check_op_allow:
  assumes "cx_wt_path cx = Some p"
  shows "allow (gs_decision (check_op_in_progress env cx s))
           \<longleftrightarrow> allow (gs_decision s) \<and> no_op_in_progress env p"
  using assms
  by (auto simp: check_op_in_progress_def no_op_in_progress_def deny_not_allow
        split: option.splits)

lemma check_ancestry_allow:
  assumes "cx_wt_path cx = Some p" "cx_repo_root cx = Some r" "gc_base_ref (cx_cfg cx) \<noteq> []"
  shows "allow (gs_decision (check_ancestry env cx s))
           \<longleftrightarrow> allow (gs_decision s) \<and> ancestry_ok env (cx_cfg cx) r p"
  using assms
  by (auto simp: check_ancestry_def ancestry_ok_def deny_not_allow Let_def
        split: option.splits prod.splits)

lemma push_probe_allow:
  assumes "cx_wt_path cx = Some p"
  shows "allow (gs_decision (push_probe env cx s))
           \<longleftrightarrow> allow (gs_decision s) \<and> push_ok env (cx_cfg cx) p"
  using assms
  by (auto simp: push_probe_def push_ok_def deny_not_allow split: option.splits prod.splits)

lemma g0_main_run:
  assumes "safe_read_json env = (contract, err)" "contract \<noteq> JNull"
      and "gate_contract_fields (g_repr env) contract = Inr cfg"
      and "gc_packet_id cfg \<noteq> []" "gc_branch cfg \<noteq> []" "gc_base_ref cfg \<noteq> []"
      and "g0_git_root env = Some repo_root"
      and "evidence_path_of env contract = Inr ep"
      and "cx = gate_context env (Some repo_root) cfg Decision_init"
  shows "g0_main env =
     Inr \<lparr>g_exit_code = (if allow (gs_decision (gate_checks env cx Decision_init)) then 0 else 2),
          g_evidence_path = ep,
          g_evidence = make_evidence env cx (gate_checks env cx Decision_init)\<rparr>"
  using assms by (simp add: g0_main_def contract_decision_def bind_def Let_def)

lemma gate_context_fields:
  assumes "gc_packet_id cfg \<noteq> []"
  shows "cx_wt_path (gate_context env (Some r) cfg Decision_init)
           = Some (g_join env (g_join env r (gc_worktree_root cfg)) (gc_packet_id cfg))"
    "cx_wt_exists (gate_context env (Some r) cfg Decision_init)
           = g_exists env (g_join env (g_join env r (gc_worktree_root cfg)) (gc_packet_id cfg))"
    "cx_wt_list (gate_context env (Some r) cfg Decision_init) = parse_worktree_list env r"
    "cx_cfg (gate_context env (Some r) cfg Decision_init) = cfg"
    "cx_repo_root (gate_context env (Some r) cfg Decision_init) = Some r"
  using assms by (simp_all add: gate_context_def Let_def Decision_init_def)

lemma g0_main_path_ok:
  assumes "g0_main env = Inr r"
  shows "\<exists>ep. evidence_path_of env (fst (safe_read_json env)) = Inr ep"
  using assms
  by (cases "evidence_path_of env (fst (safe_read_json env))")
     (simp_all add: g0_main_def Let_def bind_def)

text \<open>
  Claim C3 as stated fails: in the concrete repository the worktree path
  \<open>worktree_root/packet_id\<close> exists, is registered and is bound to the contract's
  branch \<open>b1\<close>, and nothing else is wrong, yet with a contract that does not set
  \<^verbatim>\<open>worktree_policy.deny_if_worktree_exists\<close> (default true) the gate denies with
  \<open>WORKTREE_COLLISION\<close> and does not mark the worktree as reused.
\<close>

theorem gate_reentry_counterexample:
  "g_exists (reentry_env reentry_contract) ''/r/.codex/.worktrees/p1''
   \<and> g_resolve (reentry_env reentry_contract) ''/r/.codex/.worktrees/p1''
        \<in> set (map (\<lambda>e. g_resolve (reentry_env reentry_contract) (fst e))
                 (parse_worktree_list (reentry_env reentry_contract) ''/r''))
   \<and> worktree_branch (registry_entry (reentry_env reentry_contract)
        (parse_worktree_list (reentry_env reentry_contract) ''/r'') ''/r/.codex/.worktrees/p1'')
        = Some ''b1''
   \<and> \<not> isl (g0_main (reentry_env reentry_contract))
   \<and> ev_worktree_path (g_evidence (projr (g0_main (reentry_env reentry_contract))))
        = Some ''/r/.codex/.worktrees/p1''
   \<and> ev_branch (g_evidence (projr (g0_main (reentry_env reentry_contract)))) = ''b1''
   \<and> \<not> worktree_reused (g_evidence (projr (g0_main (reentry_env reentry_contract))))
   \<and> ev_decision (g_evidence (projr (g0_main (reentry_env reentry_contract)))) = ''DENY''
   \<and> ev_deny_code (g_evidence (projr (g0_main (reentry_env reentry_contract))))
        = Some ''WORKTREE_COLLISION''
   \<and> g_exit_code (projr (g0_main (reentry_env reentry_contract))) = 2"
proof -
  let ?E = "reentry_env reentry_contract"
  let ?cfg = "\<lparr>gc_packet_id = ''p1'', gc_branch = ''b1'', gc_base_ref = ''main'',
      gc_github_ops_required = False, gc_worktree_root = ''.codex/.worktrees'',
      gc_deny_if_exists = True\<rparr>"
  let ?cx = "gate_context ?E (Some ''/r'') ?cfg Decision_init"
  have rd: "safe_read_json ?E = (reentry_contract, None)"
    by (simp add: safe_read_json_def reentry_env_def)
  have ne: "reentry_contract \<noteq> JNull" by (simp add: reentry_contract_def)
  have cf: "gate_contract_fields (g_repr ?E) reentry_contract = Inr ?cfg"
    by (simp add: gate_contract_fields_def reentry_contract_def bind_def dict_get_def py_or_def)
  have gr: "g0_git_root ?E = Some ''/r''"
    by (simp add: g0_git_root_def reentry_env_def reentry_run_def strip_def is_space_def)
  have ep: "evidence_path_of ?E reentry_contract = Inr ''.codex/out/p1/g0_enter_work.json''"
    by (simp add: evidence_path_of_def default_evidence_path_def reentry_env_def
          reentry_contract_def bind_def dict_get_def py_or_def startswith_def)
  have jn: "g_join ?E (g_join ?E ''/r'' ''.codex/.worktrees'') ''p1'' = ''/r/.codex/.worktrees/p1''"
    by (simp add: reentry_env_def startswith_def)
  have ex: "g_exists ?E ''/r/.codex/.worktrees/p1''" by (simp add: reentry_env_def)
  have wl: "parse_worktree_list ?E ''/r'' =
    [(''/r'', [(''path'', ''/r''), (''HEAD'', ''abc''), (''branch'', ''refs/heads/main'')]),
     (''/r/.codex/.worktrees/p1'',
        [(''path'', ''/r/.codex/.worktrees/p1''), (''HEAD'', ''def''),
         (''branch'', ''refs/heads/b1'')])]"
    by (simp add: parse_worktree_list_def reentry_env_def reentry_run_def splitlines_def
          is_linebreak_def flush_entry_def startswith_def strip_def is_space_def)
  have reg: "g_resolve ?E ''/r/.codex/.worktrees/p1''
        \<in> set (map (\<lambda>e. g_resolve ?E (fst e)) (parse_worktree_list ?E ''/r''))"
    unfolding wl by (simp add: reentry_env_def)
  have bnd: "worktree_branch (registry_entry ?E (parse_worktree_list ?E ''/r'')
        ''/r/.codex/.worktrees/p1'') = Some ''b1''"
    unfolding wl by (simp add: registry_entry_def worktree_branch_def startswith_def)
  have cxf: "cx_wt_path ?cx = Some ''/r/.codex/.worktrees/p1''" "cx_wt_exists ?cx"
    "gc_deny_if_exists (cx_cfg ?cx)"
    using gate_context_fields [of ?cfg ?E "''/r''"] jn ex by simp_all
  have al: "allow Decision_init" by (simp add: Decision_init_def)
  note run = g0_main_run [OF rd ne cf _ _ _ gr ep refl, simplified]
  note chk = gate_checks_collision [OF cxf al, of ?E]
  have res: "g0_main ?E =
     Inr \<lparr>g_exit_code = 2, g_evidence_path = ''.codex/out/p1/g0_enter_work.json'',
          g_evidence = make_evidence ?E ?cx
            ((gate_state_init Decision_init)\<lparr>gs_decision := deny Decision_init ''WORKTREE_COLLISION''
               ''worktree exists and deny_if_worktree_exists=true''\<rparr>)\<rparr>"
    unfolding run chk by (simp add: deny_not_allow)
  show ?thesis
    unfolding res
    using ex reg bnd cxf(1) gate_context_fields(4) [of ?cfg ?E "''/r''"]
    by (simp add: make_evidence_def gate_state_init_def deny_def Decision_init_def)
qed

text \<open>
  Claim C3, amended. For every contract (with non-empty \<open>packet_id\<close>, \<open>branch\<close> and
  \<open>base_ref\<close>, inside a repository) whose \<^verbatim>\<open>worktree_policy.deny_if_worktree_exists\<close> is
  falsy and whose worktree path \<open>worktree_root/packet_id\<close> exists on disk, is
  registered (its resolved path is among the resolved registry paths) and is bound to
  the contract's branch (the registry entry found under the path, or under its
  resolved form, names that branch), a run of the gate that returns records that very
  path, \<open>worktree_reused = true\<close>, \<open>worktree_created = false\<close> and no collision; its
  decision is \<open>ALLOW\<close>, with exit code 0, exactly when the later checks find no other
  violation: no git operation in progress, base an ancestor of the head, and the
  dry-run push succeeding or not required.
\<close>

theorem gate_reentry_reuses_worktree:
  assumes "g0_main env = Inr r"
      and "safe_read_json env = (contract, err)"
      and "contract \<noteq> JNull"
      and "gate_contract_fields (g_repr env) contract = Inr cfg"
      and "gc_packet_id cfg \<noteq> []" and "gc_branch cfg \<noteq> []" and "gc_base_ref cfg \<noteq> []"
      and "g0_git_root env = Some repo_root"
      and "wt_path = g_join env (g_join env repo_root (gc_worktree_root cfg)) (gc_packet_id cfg)"
      and "g_exists env wt_path"
      and "g_resolve env wt_path
             \<in> set (map (\<lambda>e. g_resolve env (fst e)) (parse_worktree_list env repo_root))"
      and "worktree_branch (registry_entry env (parse_worktree_list env repo_root) wt_path)
             = Some (gc_branch cfg)"
      and "\<not> gc_deny_if_exists cfg"
  shows "ev_worktree_path (g_evidence r) = Some wt_path
     \<and> worktree_reused (g_evidence r)
     \<and> \<not> worktree_created (g_evidence r)
     \<and> \<not> collision (g_evidence r)
     \<and> (ev_decision (g_evidence r) = ''ALLOW''
          \<longleftrightarrow> no_op_in_progress env wt_path \<and> ancestry_ok env cfg repo_root wt_path
               \<and> push_ok env cfg wt_path)
     \<and> (g_exit_code r = 0 \<longleftrightarrow> ev_decision (g_evidence r) = ''ALLOW'')"
proof -
  let ?cx = "gate_context env (Some repo_root) cfg Decision_init"
  let ?s3 = "(gate_state_init Decision_init)\<lparr>gs_reused := True\<rparr>"
  from g0_main_path_ok [OF assms(1)] assms(2)
  obtain ep where ep: "evidence_path_of env contract = Inr ep" by auto
  note cxf = gate_context_fields [OF assms(5), of env repo_root]
  have al: "allow Decision_init" by (simp add: Decision_init_def)
  have wp: "cx_wt_path ?cx = Some wt_path" by (simp add: cxf assms(9))
  have pre: "create_worktree env ?cx (check_branch env ?cx (check_registered env ?cx
           (check_deny_if_exists ?cx (gate_state_init Decision_init)))) = ?s3"
    by (rule gate_checks_reuse_prefix [OF wp _ _ al])
       (use assms(6,10,11,12,13) in \<open>simp_all add: cxf assms(9) [symmetric]\<close>)
  have chk: "gate_checks env ?cx Decision_init
      = push_probe env ?cx (check_ancestry env ?cx (check_op_in_progress env ?cx ?s3))"
    unfolding gate_checks_def pre ..
  have s3: "allow (gs_decision ?s3)" "gs_reused ?s3" "\<not> gs_created ?s3" "\<not> gs_collision ?s3"
    by (simp_all add: gate_state_init_def Decision_init_def)
  have A: "allow (gs_decision (gate_checks env ?cx Decision_init))
      \<longleftrightarrow> no_op_in_progress env wt_path \<and> ancestry_ok env cfg repo_root wt_path
          \<and> push_ok env cfg wt_path"
    unfolding chk
    using push_probe_allow [OF wp, of env] check_ancestry_allow [OF wp, of repo_root env]
      check_op_allow [OF wp, of env] s3(1)
    by (simp add: cxf assms(7))
  have F: "gs_reused (gate_checks env ?cx Decision_init)"
    "\<not> gs_created (gate_checks env ?cx Decision_init)"
    "\<not> gs_collision (gate_checks env ?cx Decision_init)"
    unfolding chk using s3 by (simp_all add: later_checks_frame)
  have res: "r = \<lparr>g_exit_code = (if allow (gs_decision (gate_checks env ?cx Decision_init)) then 0 else 2),
          g_evidence_path = ep,
          g_evidence = make_evidence env ?cx (gate_checks env ?cx Decision_init)\<rparr>"
    using g0_main_run [OF assms(2,3,4,5,6,7,8) ep refl] assms(1) by simp
  show ?thesis
    unfolding res using A F wp by (simp add: make_evidence_def)
qed

theorem gate_reentry_reuses_worktree_witness:
  "safe_read_json (reentry_env resume_contract) = (resume_contract, None)
   \<and> g0_git_root (reentry_env resume_contract) = Some ''/r''
   \<and> g_exists (reentry_env resume_contract) ''/r/.codex/.worktrees/p1''
   \<and> \<not> isl (g0_main (reentry_env resume_contract))
   \<and> ev_worktree_path (g_evidence (projr (g0_main (reentry_env resume_contract))))
        = Some ''/r/.codex/.worktrees/p1''
   \<and> worktree_reused (g_evidence (projr (g0_main (reentry_env resume_contract))))
   \<and> \<not> worktree_created (g_evidence (projr (g0_main (reentry_env resume_contract))))
   \<and> ev_decision (g_evidence (projr (g0_main (reentry_env resume_contract)))) = ''ALLOW''
   \<and> g_exit_code (projr (g0_main (reentry_env resume_contract))) = 0"
proof -
  let ?E = "reentry_env resume_contract"
  let ?cfg = "\<lparr>gc_packet_id = ''p1'', gc_branch = ''b1'', gc_base_ref = ''main'',
      gc_github_ops_required = False, gc_worktree_root = ''.codex/.worktrees'',
      gc_deny_if_exists = False\<rparr>"
  let ?W = "''/r/.codex/.worktrees/p1''"
  have rd: "safe_read_json ?E = (resume_contract, None)"
    by (simp add: safe_read_json_def reentry_env_def)
  have ne: "resume_contract \<noteq> JNull" by (simp add: resume_contract_def)
  have cf: "gate_contract_fields (g_repr ?E) resume_contract = Inr ?cfg"
    by (simp add: gate_contract_fields_def resume_contract_def bind_def dict_get_def py_or_def)
  have gr: "g0_git_root ?E = Some ''/r''"
    by (simp add: g0_git_root_def reentry_env_def reentry_run_def strip_def is_space_def)
  have ok: "gate_contract_ok ?E"
    by (simp add: gate_contract_ok_def safe_read_json_def reentry_env_def resume_contract_def
          dict_get_def py_or_def is_dict_def)
  have jn: "?W = g_join ?E (g_join ?E ''/r'' (gc_worktree_root ?cfg)) (gc_packet_id ?cfg)"
    by (simp add: reentry_env_def startswith_def)
  have ex: "g_exists ?E ?W" by (simp add: reentry_env_def)
  have wl: "parse_worktree_list ?E ''/r'' =
    [(''/r'', [(''path'', ''/r''), (''HEAD'', ''abc''), (''branch'', ''refs/heads/main'')]),
     (''/r/.codex/.worktrees/p1'',
        [(''path'', ''/r/.codex/.worktrees/p1''), (''HEAD'', ''def''),
         (''branch'', ''refs/heads/b1'')])]"
    by (simp add: parse_worktree_list_def reentry_env_def reentry_run_def splitlines_def
          is_linebreak_def flush_entry_def startswith_def strip_def is_space_def)
  have reg: "g_resolve ?E ?W \<in> set (map (\<lambda>e. g_resolve ?E (fst e)) (parse_worktree_list ?E ''/r''))"
    unfolding wl by (simp add: reentry_env_def)
  have bnd: "worktree_branch (registry_entry ?E (parse_worktree_list ?E ''/r'') ?W)
      = Some (gc_branch ?cfg)"
    unfolding wl by (simp add: registry_entry_def worktree_branch_def startswith_def)
  have nop: "no_op_in_progress ?E ?W"
    by (simp add: no_op_in_progress_def git_dir_def git_op_in_progress_def reentry_env_def
          reentry_run_def strip_def is_space_def startswith_def)
  have anc: "ancestry_ok ?E ?cfg ''/r'' ?W"
    by (simp add: ancestry_ok_def git_rev_parse_def reentry_env_def reentry_run_def strip_def
          is_space_def)
  have psh: "push_ok ?E ?cfg ?W" by (simp add: push_ok_def)
  obtain r where r: "g0_main ?E = Inr r"
    using gate_writes_evidence [of ?E] ok by blast
  show ?thesis
    using gate_reentry_reuses_worktree [OF r rd ne cf _ _ _ gr jn ex reg bnd] nop anc psh r rd gr ex
    by simp
qed

end
